theory Spec2Isabelle
  imports Complex_Main "HOL-Library.Sublist" "HOL-Library.AList"
begin

section \<open>JavaScript strings\<close>

text \<open>
  The installer service is TypeScript. A JavaScript string is a sequence of UTF-16 code
  units; the model uses HOL strings, whose characters are the code units 0 to 255 (ASCII
  and Latin-1). The library functions the installers call on strings (\<open>toLowerCase\<close>,
  \<open>trim\<close>, \<open>slice\<close>, \<open>parseInt\<close>, \<open>replace\<close> with a regular expression) are written out
  for that range, one function per call site of the source.
\<close>

definition nl :: char where
  "nl = CHR 0x0A"

definition dq :: char where
  "dq = CHR 0x22"

definition backslash :: char where
  "backslash = CHR 0x5C"

text \<open>The class \<open>\s\<close> of a regular expression, which is also what \<open>trim\<close> removes: tab, line
  feed, vertical tab, form feed, carriage return, space and the no-break space.\<close>

definition js_space :: "char \<Rightarrow> bool" where
  "js_space c = (c \<in> set [CHR 0x09, CHR 0x0A, CHR 0x0B, CHR 0x0C, CHR 0x0D, CHR 0x20, CHR 0xA0])"

text \<open>A line terminator, which \<open>.\<close> does not match.\<close>

definition js_line_terminator :: "char \<Rightarrow> bool" where
  "js_line_terminator c = (c \<in> set [CHR 0x0A, CHR 0x0D])"

definition trim :: "string \<Rightarrow> string" where
  "trim s = rev (dropWhile js_space (rev (dropWhile js_space s)))"

text \<open>\<open>s.slice(a, b)\<close> for \<open>0 \<le> a \<le> b\<close>: out-of-range indices are clamped.\<close>

definition slice :: "nat \<Rightarrow> nat \<Rightarrow> string \<Rightarrow> string" where
  "slice a b s = take (b - a) (drop a s)"

definition upper_chars :: string where
  "upper_chars = ''ABCDEFGHIJKLMNOPQRSTUVWXYZ'' @
     [CHR 0xC0, CHR 0xC1, CHR 0xC2, CHR 0xC3, CHR 0xC4, CHR 0xC5, CHR 0xC6, CHR 0xC7,
      CHR 0xC8, CHR 0xC9, CHR 0xCA, CHR 0xCB, CHR 0xCC, CHR 0xCD, CHR 0xCE, CHR 0xCF,
      CHR 0xD0, CHR 0xD1, CHR 0xD2, CHR 0xD3, CHR 0xD4, CHR 0xD5, CHR 0xD6,
      CHR 0xD8, CHR 0xD9, CHR 0xDA, CHR 0xDB, CHR 0xDC, CHR 0xDD, CHR 0xDE]"

definition lower_chars :: string where
  "lower_chars = ''abcdefghijklmnopqrstuvwxyz'' @
     [CHR 0xE0, CHR 0xE1, CHR 0xE2, CHR 0xE3, CHR 0xE4, CHR 0xE5, CHR 0xE6, CHR 0xE7,
      CHR 0xE8, CHR 0xE9, CHR 0xEA, CHR 0xEB, CHR 0xEC, CHR 0xED, CHR 0xEE, CHR 0xEF,
      CHR 0xF0, CHR 0xF1, CHR 0xF2, CHR 0xF3, CHR 0xF4, CHR 0xF5, CHR 0xF6,
      CHR 0xF8, CHR 0xF9, CHR 0xFA, CHR 0xFB, CHR 0xFC, CHR 0xFD, CHR 0xFE]"

definition toLowerCase_char :: "char \<Rightarrow> char" where
  "toLowerCase_char c =
     (case map_of (zip upper_chars lower_chars) c of Some l \<Rightarrow> l | None \<Rightarrow> c)"

definition toLowerCase :: "string \<Rightarrow> string" where
  "toLowerCase s = map toLowerCase_char s"

section \<open>The iTerm2 profile file name\<close>

text \<open>
  \<open>installToIterm2\<close> names the profile file after
  \<^verbatim>\<open>themeName.toLowerCase().replace(/[^a-z0-9]+/g, '-')\<close>.
  The character class \<open>[a-z0-9]\<close>:
\<close>

definition lower_alnum :: "char \<Rightarrow> bool" where
  "lower_alnum c = (c \<in> set ''abcdefghijklmnopqrstuvwxyz0123456789'')"

text \<open>The global replace: every maximal run of characters outside the class becomes one
  hyphen, and the search resumes after the run.\<close>

function replace_non_alnum_runs :: "string \<Rightarrow> string" where
  "replace_non_alnum_runs [] = []"
| "replace_non_alnum_runs (c # cs) =
     (if lower_alnum c then c # replace_non_alnum_runs cs
      else CHR ''-'' # replace_non_alnum_runs (dropWhile (\<lambda>x. \<not> lower_alnum x) cs))"
  by pat_completeness auto
termination
  by (relation "measure length") (auto simp: length_dropWhile_le less_Suc_eq_le)

definition slugName :: "string \<Rightarrow> string" where
  "slugName themeName = replace_non_alnum_runs (toLowerCase themeName)"

text \<open>No hyphen is followed by a hyphen.\<close>

fun adjacent_hyphens :: "string \<Rightarrow> bool" where
  "adjacent_hyphens (a # b # cs) = ((a = CHR ''-'' \<and> b = CHR ''-'') \<or> adjacent_hyphens (b # cs))"
| "adjacent_hyphens _ = False"

section \<open>The JSONC comment scanner of installToWindowsTerminal\<close>

text \<open>
  The scanner is a \<open>while\<close> loop over an index \<open>i\<close> with two flags, \<open>inString\<close> and
  \<open>escaped\<close>. The model recurses on the characters from \<open>i\<close> on and returns what the loop
  appends to \<open>jsonWithoutComments\<close>.

  The inner loop of a block comment, entered after \<open>i += 2\<close>: it runs while at least two
  characters remain (\<open>i < length - 1\<close>), and leaves at the closer or when fewer remain.
\<close>

fun skip_block_comment :: "string \<Rightarrow> string" where
  "skip_block_comment (a # b # cs) =
     (if a = CHR ''*'' \<and> b = CHR ''/'' then cs else skip_block_comment (b # cs))"
| "skip_block_comment cs = cs"

lemma length_skip_block_comment: "length (skip_block_comment cs) \<le> length cs"
  by (induction cs rule: skip_block_comment.induct) auto

definition next_is :: "char \<Rightarrow> string \<Rightarrow> bool" where
  "next_is x cs = (case cs of [] \<Rightarrow> False | n # _ \<Rightarrow> n = x)"

function strip_comments_from :: "bool \<Rightarrow> bool \<Rightarrow> string \<Rightarrow> string" where
  "strip_comments_from inString escaped [] = []"
| "strip_comments_from inString escaped (c # cs) =
     (if escaped then c # strip_comments_from inString False cs
      else if c = backslash \<and> inString then c # strip_comments_from inString True cs
      else if c = dq \<and> \<not> escaped then c # strip_comments_from (\<not> inString) escaped cs
      else if \<not> inString \<and> c = CHR ''/'' \<and> next_is (CHR ''/'') cs
        then strip_comments_from inString escaped (dropWhile (\<lambda>x. x \<noteq> nl) (c # cs))
      else if \<not> inString \<and> c = CHR ''/'' \<and> next_is (CHR ''*'') cs
        then strip_comments_from inString escaped (skip_block_comment (drop 1 cs))
      else c # strip_comments_from inString escaped cs)"
  by pat_completeness auto
termination
proof (relation "measure (\<lambda>(inString, escaped, s). length s)", goal_cases)
  case 1
  show ?case by simp
next
  case (5 inString escaped c cs)
  have "length (dropWhile (\<lambda>x. x \<noteq> nl) cs) \<le> length cs"
    by (rule length_dropWhile_le)
  moreover from 5 have "c \<noteq> nl"
    by (simp add: nl_def)
  ultimately show ?case by simp
next
  case (6 inString escaped c cs)
  have "length (skip_block_comment (drop 1 cs)) \<le> length (drop 1 cs)"
    by (rule length_skip_block_comment)
  then show ?case by simp
qed simp_all

definition strip_comments :: "string \<Rightarrow> string" where
  "strip_comments settingsContent = strip_comments_from False False settingsContent"

text \<open>
  The cleanup \<^verbatim>\<open>replace(/,(\s*[}\]])/g, '$1')\<close>: a comma followed by white space and a
  closing bracket is replaced by the white space and the bracket, and the search resumes
  after the bracket.
\<close>

definition closing_bracket :: "char \<Rightarrow> bool" where
  "closing_bracket c = (c = CHR ''}'' \<or> c = CHR '']'')"

definition comma_match :: "string \<Rightarrow> bool" where
  "comma_match cs = (case dropWhile js_space cs of [] \<Rightarrow> False | b # _ \<Rightarrow> closing_bracket b)"

function strip_trailing_commas :: "string \<Rightarrow> string" where
  "strip_trailing_commas [] = []"
| "strip_trailing_commas (c # cs) =
     (if c = CHR '','' \<and> comma_match cs
      then takeWhile js_space cs @ take 1 (dropWhile js_space cs)
           @ strip_trailing_commas (drop 1 (dropWhile js_space cs))
      else c # strip_trailing_commas cs)"
  by pat_completeness auto
termination
proof (relation "measure length", goal_cases)
  case 1
  show ?case by simp
next
  case (2 c cs)
  have "length (dropWhile js_space cs) \<le> length cs"
    by (rule length_dropWhile_le)
  then show ?case by simp
qed simp

definition jsonc_strip :: "string \<Rightarrow> string" where
  "jsonc_strip settingsContent = strip_trailing_commas (strip_comments settingsContent)"

section \<open>Numbers and the colour codec\<close>

text \<open>
  A JavaScript number is an IEEE 754 double. A finite double is a rational, so a number is
  modelled as a rational, with \<open>None\<close> for \<open>NaN\<close>, and an arithmetic operation returns the
  double nearest to the exact result, ties going to the even significand: \<open>to_double\<close>.
  The exact result is brought into the binade \<open>2^52 \<le> x < 2^53\<close> by halving or doubling,
  the exponent of the last place going no lower than \<open>-1074\<close> (the subnormal numbers), and
  is rounded to an integer significand there. The infinities and the sign of zero are not
  represented: the quotients of this program have a dividend of at most two hexadecimal
  digits. The integers of \<open>hexToRGB\<close> are below \<open>2^53\<close> and exact.
\<close>

type_synonym number = "rat option"

definition round_half_even :: "rat \<Rightarrow> int" where
  "round_half_even x =
     (let f = \<lfloor>x\<rfloor>; r = x - of_int f in
      if r < 1 / 2 then f else if 1 / 2 < r then f + 1 else if even f then f else f + 1)"

function scale_down :: "rat \<Rightarrow> int \<Rightarrow> rat \<times> int" where
  "scale_down x e = (if 2 ^ 53 \<le> x then scale_down (x / 2) (e + 1) else (x, e))"
  by pat_completeness auto
termination
proof (relation "measure (\<lambda>(x, e). nat \<lfloor>x\<rfloor>)", goal_cases)
  case 1
  show ?case by simp
next
  case (2 x e)
  then have "1 \<le> x" by simp
  from 2 have "x / 2 + 1 \<le> x" by simp
  then have "\<lfloor>x / 2 + 1\<rfloor> \<le> \<lfloor>x\<rfloor>" by (rule floor_mono)
  then have "\<lfloor>x / 2\<rfloor> + 1 \<le> \<lfloor>x\<rfloor>" by simp
  moreover from \<open>1 \<le> x\<close> have "0 < \<lfloor>x\<rfloor>" by simp
  ultimately show ?case by simp
qed

function scale_up :: "rat \<Rightarrow> int \<Rightarrow> rat \<times> int" where
  "scale_up x e = (if x < 2 ^ 52 \<and> - 1074 < e then scale_up (x * 2) (e - 1) else (x, e))"
  by pat_completeness auto
termination
  by (relation "measure (\<lambda>(x, e). nat (e + 1074))") auto

declare scale_down.simps [simp del] scale_up.simps [simp del]

definition scale2 :: "int \<Rightarrow> rat" where
  "scale2 e = (if 0 \<le> e then 2 ^ nat e else 1 / 2 ^ nat (- e))"

definition to_double :: "rat \<Rightarrow> rat" where
  "to_double q =
     (if q = 0 then 0
      else let (x, e) = (if 2 ^ 53 \<le> \<bar>q\<bar> then scale_down \<bar>q\<bar> 0 else scale_up \<bar>q\<bar> 0)
           in sgn q * of_int (round_half_even x) * scale2 e)"

definition hex_digit_value :: "char \<Rightarrow> nat option" where
  "hex_digit_value c =
     map_of (zip ''0123456789abcdefABCDEF''
       [0, 1, 2, 3, 4, 5, 6, 7, 8, 9, 10, 11, 12, 13, 14, 15, 10, 11, 12, 13, 14, 15]) c"

definition is_hex_digit :: "char \<Rightarrow> bool" where
  "is_hex_digit c = (hex_digit_value c \<noteq> None)"

definition digit_or_zero :: "char \<Rightarrow> nat" where
  "digit_or_zero c = (case hex_digit_value c of Some d \<Rightarrow> d | None \<Rightarrow> 0)"

text \<open>
  \<open>parseInt(s, 16)\<close>: leading white space is skipped, then a sign, then \<open>0x\<close> or \<open>0X\<close>; the
  longest run of hexadecimal digits that follows is the value, and an empty run is \<open>NaN\<close>.
\<close>

definition parseInt16 :: "string \<Rightarrow> int option" where
  "parseInt16 s =
     (let s1 = dropWhile js_space s;
          sign = (if prefix ''-'' s1 then - 1 else 1);
          s2 = (if prefix ''+'' s1 \<or> prefix ''-'' s1 then drop 1 s1 else s1);
          s3 = (if prefix ''0x'' s2 \<or> prefix ''0X'' s2 then drop 2 s2 else s2);
          z = takeWhile is_hex_digit s3
      in if z = [] then None
         else Some (sign * int (foldl (\<lambda>a c. 16 * a + digit_or_zero c) 0 z)))"

record iterm_color =
  Red_Component :: number
  Green_Component :: number
  Blue_Component :: number
  Alpha_Component :: number
  Color_Space :: string

text \<open>\<open>n / 255\<close> on numbers: \<open>NaN\<close> stays \<open>NaN\<close>, and the quotient of two integers is rounded
  to a double.\<close>

definition channel_fraction :: "int option \<Rightarrow> number" where
  "channel_fraction n = map_option (\<lambda>i. to_double (of_int i / 255)) n"

definition hexToItermColorDict :: "string \<Rightarrow> iterm_color" where
  "hexToItermColorDict hex =
     (let r = channel_fraction (parseInt16 (slice 1 3 hex));
          g = channel_fraction (parseInt16 (slice 3 5 hex));
          b = channel_fraction (parseInt16 (slice 5 7 hex))
      in \<lparr>Red_Component = r, Green_Component = g, Blue_Component = b,
          Alpha_Component = Some 1, Color_Space = ''sRGB''\<rparr>)"

text \<open>A number in a template literal: decimal digits, a minus sign, or \<open>NaN\<close>.\<close>

fun decimal :: "nat \<Rightarrow> string" where
  "decimal n =
     (if n < 10 then [''0123456789'' ! n]
      else decimal (n div 10) @ [''0123456789'' ! (n mod 10)])"

declare decimal.simps [simp del]

definition number_text :: "int option \<Rightarrow> string" where
  "number_text n =
     (case n of None \<Rightarrow> ''NaN''
      | Some i \<Rightarrow> if i < 0 then CHR ''-'' # decimal (nat (- i)) else decimal (nat i))"

definition channel_16bit :: "int option \<Rightarrow> int option" where
  "channel_16bit n = map_option (\<lambda>i. i * 257) n"

text \<open>\<open>hexToRGB\<close> is declared twice in the source, with the same body, in
  \<open>installToTerminalApp\<close> and in \<open>setTerminalDefault\<close>.\<close>

definition hexToRGB :: "string \<Rightarrow> string" where
  "hexToRGB hex =
     (let r = channel_16bit (parseInt16 (slice 1 3 hex));
          g = channel_16bit (parseInt16 (slice 3 5 hex));
          b = channel_16bit (parseInt16 (slice 5 7 hex))
      in ''{'' @ number_text r @ '', '' @ number_text g @ '', '' @ number_text b @ ''}'')"

text \<open>What the specification calls a well-formed hex string and its bytes.\<close>

definition well_formed_hex :: "string \<Rightarrow> bool" where
  "well_formed_hex hex =
     (length hex = 7 \<and> take 1 hex = ''#'' \<and> list_all is_hex_digit (drop 1 hex))"

definition hex_byte :: "nat \<Rightarrow> string \<Rightarrow> nat" where
  "hex_byte k hex = 16 * digit_or_zero (hex ! (2 * k + 1)) + digit_or_zero (hex ! (2 * k + 2))"

section \<open>Theme lookup\<close>

text \<open>
  The database holds the rows of \<open>theme_colors\<close> (theme id, colour key, hex value) and of
  \<open>themes\<close> (id, name). \<open>getThemeColors\<close> selects the rows of one theme, returns \<open>null\<close>
  when there are none, and otherwise builds a \<open>Map\<close> from the rows and reads every key
  with a default behind \<open>||\<close>.
\<close>

text \<open>Modelled from the spec: the database module (\<open>db/connection\<close>) is not among the
  sources. It is taken as the two tables the queries read, the rows in the order the queries
  return them; storage "yields no ordering guarantee and duplicates are overwritten by
  last-write".\<close>

record database =
  theme_colors :: "(string \<times> string \<times> string) list"
  themes :: "(string \<times> string) list"

text \<open>Modelled from the spec: the type \<open>ThemeColors\<close> (\<open>shared/types/theme\<close>) is not among
  the sources. It has the fields \<open>getThemeColors\<close> fills: "background, foreground, cursor,
  cursorText, selection, selectionText (each a hex color string), plus an ANSI palette of 16
  named hex colors".\<close>

record ansi_colors =
  black :: string
  red :: string
  green :: string
  yellow :: string
  blue :: string
  magenta :: string
  cyan :: string
  white :: string
  brightBlack :: string
  brightRed :: string
  brightGreen :: string
  brightYellow :: string
  brightBlue :: string
  brightMagenta :: string
  brightCyan :: string
  brightWhite :: string

record ThemeColors =
  background :: string
  foreground :: string
  cursor :: string
  cursorText :: string
  selection :: string
  selectionText :: string
  ansi :: ansi_colors

text \<open>\<^verbatim>\<open>SELECT color_key, hex_value FROM theme_colors WHERE theme_id = ?\<close>\<close>

definition select_colors :: "database \<Rightarrow> string \<Rightarrow> (string \<times> string) list" where
  "select_colors db themeId =
     map snd (filter (\<lambda>row. fst row = themeId) (theme_colors db))"

text \<open>\<open>new Map(entries)\<close> sets the entries in order, so a later row of a key replaces an
  earlier one.\<close>

definition new_Map :: "(string \<times> string) list \<Rightarrow> (string \<Rightarrow> string option)" where
  "new_Map entries = foldl (\<lambda>m entry. m(fst entry \<mapsto> snd entry)) Map.empty entries"

text \<open>\<open>colorMap.get(key) || fallback\<close>: an absent key and an empty string are both falsy.\<close>

definition get_or :: "(string \<Rightarrow> string option) \<Rightarrow> string \<Rightarrow> string \<Rightarrow> string" where
  "get_or colorMap key fallback =
     (case colorMap key of None \<Rightarrow> fallback | Some v \<Rightarrow> if v = [] then fallback else v)"

definition getThemeColors :: "database \<Rightarrow> string \<Rightarrow> ThemeColors option" where
  "getThemeColors db themeId =
     (let colors = select_colors db themeId in
      if length colors = 0 then None
      else let colorMap = new_Map colors in
        Some \<lparr>background = get_or colorMap ''background'' ''#000000'',
              foreground = get_or colorMap ''foreground'' ''#ffffff'',
              cursor = get_or colorMap ''cursor'' ''#ffffff'',
              cursorText = get_or colorMap ''cursorText'' ''#000000'',
              selection = get_or colorMap ''selection'' ''#444444'',
              selectionText = get_or colorMap ''selectionText'' ''#ffffff'',
              ansi = \<lparr>black = get_or colorMap ''ansi_black'' ''#000000'',
                red = get_or colorMap ''ansi_red'' ''#ff0000'',
                green = get_or colorMap ''ansi_green'' ''#00ff00'',
                yellow = get_or colorMap ''ansi_yellow'' ''#ffff00'',
                blue = get_or colorMap ''ansi_blue'' ''#0000ff'',
                magenta = get_or colorMap ''ansi_magenta'' ''#ff00ff'',
                cyan = get_or colorMap ''ansi_cyan'' ''#00ffff'',
                white = get_or colorMap ''ansi_white'' ''#ffffff'',
                brightBlack = get_or colorMap ''ansi_brightBlack'' ''#666666'',
                brightRed = get_or colorMap ''ansi_brightRed'' ''#ff6666'',
                brightGreen = get_or colorMap ''ansi_brightGreen'' ''#66ff66'',
                brightYellow = get_or colorMap ''ansi_brightYellow'' ''#ffff66'',
                brightBlue = get_or colorMap ''ansi_brightBlue'' ''#6666ff'',
                brightMagenta = get_or colorMap ''ansi_brightMagenta'' ''#ff66ff'',
                brightCyan = get_or colorMap ''ansi_brightCyan'' ''#66ffff'',
                brightWhite = get_or colorMap ''ansi_brightWhite'' ''#ffffff''\<rparr>\<rparr>)"

text \<open>\<^verbatim>\<open>SELECT name FROM themes WHERE id = ?\<close> with \<open>get\<close>: the first row, if any;
  then \<open>theme?.name || 'Untitled'\<close>.\<close>

definition getThemeName :: "database \<Rightarrow> string \<Rightarrow> string" where
  "getThemeName db themeId =
     (case find (\<lambda>row. fst row = themeId) (themes db) of
        None \<Rightarrow> ''Untitled''
      | Some theme \<Rightarrow> if snd theme = [] then ''Untitled'' else snd theme)"

text \<open>The colour keys with the field each fills and its default, for stating what the lookup
  guarantees.\<close>

definition color_fields :: "(string \<times> (ThemeColors \<Rightarrow> string) \<times> string) list" where
  "color_fields =
     [(''background'', background, ''#000000''),
      (''foreground'', foreground, ''#ffffff''),
      (''cursor'', cursor, ''#ffffff''),
      (''cursorText'', cursorText, ''#000000''),
      (''selection'', selection, ''#444444''),
      (''selectionText'', selectionText, ''#ffffff''),
      (''ansi_black'', \<lambda>c. black (ansi c), ''#000000''),
      (''ansi_red'', \<lambda>c. red (ansi c), ''#ff0000''),
      (''ansi_green'', \<lambda>c. green (ansi c), ''#00ff00''),
      (''ansi_yellow'', \<lambda>c. yellow (ansi c), ''#ffff00''),
      (''ansi_blue'', \<lambda>c. blue (ansi c), ''#0000ff''),
      (''ansi_magenta'', \<lambda>c. magenta (ansi c), ''#ff00ff''),
      (''ansi_cyan'', \<lambda>c. cyan (ansi c), ''#00ffff''),
      (''ansi_white'', \<lambda>c. white (ansi c), ''#ffffff''),
      (''ansi_brightBlack'', \<lambda>c. brightBlack (ansi c), ''#666666''),
      (''ansi_brightRed'', \<lambda>c. brightRed (ansi c), ''#ff6666''),
      (''ansi_brightGreen'', \<lambda>c. brightGreen (ansi c), ''#66ff66''),
      (''ansi_brightYellow'', \<lambda>c. brightYellow (ansi c), ''#ffff66''),
      (''ansi_brightBlue'', \<lambda>c. brightBlue (ansi c), ''#6666ff''),
      (''ansi_brightMagenta'', \<lambda>c. brightMagenta (ansi c), ''#ff66ff''),
      (''ansi_brightCyan'', \<lambda>c. brightCyan (ansi c), ''#66ffff''),
      (''ansi_brightWhite'', \<lambda>c. brightWhite (ansi c), ''#ffffff'')]"

section \<open>JSON documents\<close>

text \<open>
  The values \<open>JSON.parse\<close> returns and \<open>JSON.stringify\<close> writes. An object is the list of
  its properties in insertion order; the objects \<open>JSON.parse\<close> returns have no key twice.
\<close>

datatype json =
  JNull
  | JBool bool
  | JNum number
  | JStr string
  | JArr "json list"
  | JObj "(string \<times> json) list"

datatype js_error = TypeError

text \<open>\<open>!v\<close> for the value of a property read, \<open>None\<close> being \<open>undefined\<close>.\<close>

fun falsy :: "json option \<Rightarrow> bool" where
  "falsy None = True"
| "falsy (Some JNull) = True"
| "falsy (Some (JBool b)) = (\<not> b)"
| "falsy (Some (JNum n)) = (n = None \<or> n = Some 0)"
| "falsy (Some (JStr s)) = (s = [])"
| "falsy (Some (JArr xs)) = False"
| "falsy (Some (JObj kvs)) = False"

section \<open>The environment of an installer\<close>

text \<open>
  An installer reads the platform, the environment variables and the home directory, calls
  \<open>path.join\<close> and \<open>path.dirname\<close>, tests, reads and writes files, creates directories
  and runs commands. The world records what these calls return; a call that can throw has
  the text of its error (what \<open>${err}\<close> prints) when it does. \<open>executed\<close> is the list of
  the commands passed to \<open>exec\<close>, in order. \<open>JSON.parse\<close> and \<open>JSON.stringify\<close> are the
  engine's, and so is the text it prints for a \<open>TypeError\<close>.
\<close>

datatype platform = darwin | win32 | linux

record world =
  process_platform :: platform
  process_env :: "string \<Rightarrow> string option"
  os_homedir :: string
  app_home :: string
  path_join :: "string list \<Rightarrow> string"
  path_dirname :: "string \<Rightarrow> string"
  fs_exists :: "string \<Rightarrow> bool"
  fs_read :: "string \<Rightarrow> string + string"
  mkdir_fails :: "string \<Rightarrow> string option"
  write_fails :: "string \<Rightarrow> string option"
  exec_fails :: "string \<Rightarrow> string option"
  executed :: "string list"
  JSON_parse :: "string \<Rightarrow> string + json"
  JSON_stringify :: "json \<Rightarrow> nat \<Rightarrow> string"
  error_text :: "js_error \<Rightarrow> string"

definition env_or :: "world \<Rightarrow> string \<Rightarrow> string \<Rightarrow> string" where
  "env_or w name fallback =
     (case process_env w name of None \<Rightarrow> fallback | Some v \<Rightarrow> if v = [] then fallback else v)"

definition mkdirSync :: "world \<Rightarrow> string \<Rightarrow> string + world" where
  "mkdirSync w dir =
     (case mkdir_fails w dir of
        Some err \<Rightarrow> Inl err
      | None \<Rightarrow> Inr (w\<lparr>fs_exists := (fs_exists w)(dir := True)\<rparr>))"

text \<open>\<^verbatim>\<open>if (!fs.existsSync(dir)) { fs.mkdirSync(dir, { recursive: true }); }\<close>\<close>

definition ensure_directory :: "world \<Rightarrow> string \<Rightarrow> string + world" where
  "ensure_directory w dir = (if \<not> fs_exists w dir then mkdirSync w dir else Inr w)"

definition writeFileSync :: "world \<Rightarrow> string \<Rightarrow> string \<Rightarrow> string + world" where
  "writeFileSync w file content =
     (case write_fails w file of
        Some err \<Rightarrow> Inl err
      | None \<Rightarrow> Inr (w\<lparr>fs_exists := (fs_exists w)(file := True),
                      fs_read := (fs_read w)(file := Inr content)\<rparr>))"

definition execAsync :: "world \<Rightarrow> string \<Rightarrow> string option \<times> world" where
  "execAsync w command = (exec_fails w command, w\<lparr>executed := executed w @ [command]\<rparr>)"

section \<open>Install results\<close>

text \<open>Modelled from the spec: the type \<open>InstallResult\<close> (\<open>shared/types/ipc\<close>) is not among
  the sources. It is "{ success: bool, path: string, instructions?: string, error?: string }";
  an absent optional field is \<open>None\<close>.\<close>

record InstallResult =
  success :: bool
  path :: string
  instructions :: "string option"
  error :: "string option"

definition failed :: "string \<Rightarrow> string \<Rightarrow> InstallResult" where
  "failed p e = \<lparr>success = False, path = p, instructions = None, error = Some e\<rparr>"

definition succeeded :: "string \<Rightarrow> string \<Rightarrow> InstallResult" where
  "succeeded p i = \<lparr>success = True, path = p, instructions = Some i, error = None\<rparr>"

definition theme_not_found :: InstallResult where
  "theme_not_found = failed '''' ''Theme not found''"

text \<open>An installer returns \<open>Inr\<close> of its result and the world it leaves, or \<open>Inl\<close> of the
  error when an exception leaves the function (the promise is rejected).\<close>

type_synonym outcome = "string + InstallResult \<times> world"

section \<open>Scripts and the shell\<close>

fun join_lines :: "string list \<Rightarrow> string" where
  "join_lines [] = []"
| "join_lines [l] = l"
| "join_lines (l # ls) = l @ nl # join_lines ls"

text \<open>\<^verbatim>\<open>script.replace(/'/g, "'\"'\"'")\<close> and the command line around it.\<close>

definition escape_single_quotes :: "string \<Rightarrow> string" where
  "escape_single_quotes s =
     concat (map (\<lambda>c. if c = CHR 0x27 then [CHR 0x27, dq, CHR 0x27, dq, CHR 0x27] else [c]) s)"

definition osascript :: "string \<Rightarrow> string" where
  "osascript script = ''osascript -e '' @ [CHR 0x27] @ escape_single_quotes script @ [CHR 0x27]"

text \<open>\<^verbatim>\<open>themeName.replace(/"/g, '\\"')\<close>\<close>

definition escape_double_quotes :: "string \<Rightarrow> string" where
  "escape_double_quotes s = concat (map (\<lambda>c. if c = dq then [backslash, dq] else [c]) s)"

text \<open>The arrow U+2192 of one instruction text lies outside the characters of the model; it
  stands here as its three UTF-8 bytes.\<close>

definition arrow :: string where
  "arrow = [CHR 0xE2, CHR 0x86, CHR 0x92]"

section \<open>installToIterm2\<close>

definition iterm_color_json :: "iterm_color \<Rightarrow> json" where
  "iterm_color_json d =
     JObj [(''Red Component'', JNum (Red_Component d)),
           (''Green Component'', JNum (Green_Component d)),
           (''Blue Component'', JNum (Blue_Component d)),
           (''Alpha Component'', JNum (Alpha_Component d)),
           (''Color Space'', JStr (Color_Space d))]"

definition iterm_profile :: "string \<Rightarrow> string \<Rightarrow> ThemeColors \<Rightarrow> json" where
  "iterm_profile themeName themeId colors =
     JObj [(''Profiles'', JArr [JObj
       [(''Name'', JStr themeName),
        (''Guid'', JStr themeId),
        (''Background Color'', iterm_color_json (hexToItermColorDict (background colors))),
        (''Foreground Color'', iterm_color_json (hexToItermColorDict (foreground colors))),
        (''Cursor Color'', iterm_color_json (hexToItermColorDict (cursor colors))),
        (''Cursor Text Color'', iterm_color_json (hexToItermColorDict (cursorText colors))),
        (''Selection Color'', iterm_color_json (hexToItermColorDict (selection colors))),
        (''Selected Text Color'', iterm_color_json (hexToItermColorDict (selectionText colors))),
        (''Ansi 0 Color'', iterm_color_json (hexToItermColorDict (black (ansi colors)))),
        (''Ansi 1 Color'', iterm_color_json (hexToItermColorDict (red (ansi colors)))),
        (''Ansi 2 Color'', iterm_color_json (hexToItermColorDict (green (ansi colors)))),
        (''Ansi 3 Color'', iterm_color_json (hexToItermColorDict (yellow (ansi colors)))),
        (''Ansi 4 Color'', iterm_color_json (hexToItermColorDict (blue (ansi colors)))),
        (''Ansi 5 Color'', iterm_color_json (hexToItermColorDict (magenta (ansi colors)))),
        (''Ansi 6 Color'', iterm_color_json (hexToItermColorDict (cyan (ansi colors)))),
        (''Ansi 7 Color'', iterm_color_json (hexToItermColorDict (white (ansi colors)))),
        (''Ansi 8 Color'', iterm_color_json (hexToItermColorDict (brightBlack (ansi colors)))),
        (''Ansi 9 Color'', iterm_color_json (hexToItermColorDict (brightRed (ansi colors)))),
        (''Ansi 10 Color'', iterm_color_json (hexToItermColorDict (brightGreen (ansi colors)))),
        (''Ansi 11 Color'', iterm_color_json (hexToItermColorDict (brightYellow (ansi colors)))),
        (''Ansi 12 Color'', iterm_color_json (hexToItermColorDict (brightBlue (ansi colors)))),
        (''Ansi 13 Color'', iterm_color_json (hexToItermColorDict (brightMagenta (ansi colors)))),
        (''Ansi 14 Color'', iterm_color_json (hexToItermColorDict (brightCyan (ansi colors)))),
        (''Ansi 15 Color'', iterm_color_json (hexToItermColorDict (brightWhite (ansi colors))))]])]"

definition iterm_appleScript :: "string \<Rightarrow> string" where
  \<open>iterm_appleScript themeName =
     join_lines
       ['''',
        ''      tell application "iTerm"'',
        ''        repeat with w in windows'',
        ''          repeat with t in tabs of w'',
        ''            repeat with s in sessions of t'',
        ''              tell s to set profile to "'' @ themeName @ ''"'',
        ''            end repeat'',
        ''          end repeat'',
        ''        end repeat'',
        ''      end tell'',
        ''    '']\<close>

definition iterm_profilePath :: "world \<Rightarrow> string \<Rightarrow> string" where
  "iterm_profilePath w themeName =
     path_join w [path_join w [app_home w, ''Library/Application Support/iTerm2/DynamicProfiles''],
                  slugName themeName @ ''.json'']"

text \<open>The body of \<open>installToIterm2\<close> once the colours are found. The directory is created
  outside the \<open>try\<close>, so an error of \<open>mkdirSync\<close> leaves the function.\<close>

definition iterm2_install :: "world \<Rightarrow> string \<Rightarrow> string \<Rightarrow> ThemeColors \<Rightarrow> outcome" where
  \<open>iterm2_install w themeId themeName colors =
     (let dynamicProfilesDir =
            path_join w [app_home w, ''Library/Application Support/iTerm2/DynamicProfiles''] in
      case ensure_directory w dynamicProfilesDir of
        Inl err \<Rightarrow> Inl err
      | Inr w1 \<Rightarrow>
          let profile = iterm_profile themeName themeId colors;
              slug = slugName themeName;
              profilePath = path_join w [dynamicProfilesDir, slug @ ''.json''] in
          (case writeFileSync w1 profilePath (JSON_stringify w profile 2) of
             Inl err \<Rightarrow> Inr (failed profilePath (''Failed to write profile: '' @ err), w1)
           | Inr w2 \<Rightarrow>
               (case execAsync w2 (osascript (iterm_appleScript themeName)) of
                  (None, w3) \<Rightarrow>
                    Inr (succeeded profilePath (''Theme "'' @ themeName @ ''" applied to iTerm2!''), w3)
                | (Some scriptErr, w3) \<Rightarrow>
                    Inr (succeeded profilePath
                      (''Theme "'' @ themeName @ ''" installed. Open iTerm2 and select it from Profiles menu, or restart iTerm2.''), w3))))\<close>

definition installToIterm2 :: "world \<Rightarrow> database \<Rightarrow> string \<Rightarrow> outcome" where
  "installToIterm2 w db themeId =
     (let colors = getThemeColors db themeId;
          themeName = getThemeName db themeId in
      case colors of
        None \<Rightarrow> Inr (theme_not_found, w)
      | Some c \<Rightarrow> iterm2_install w themeId themeName c)"

section \<open>installToTerminalApp and setTerminalDefault\<close>

definition createProfileScript :: "string \<Rightarrow> ThemeColors \<Rightarrow> string" where
  \<open>createProfileScript escapedName colors =
     join_lines
       ['''',
        ''    tell application "Terminal"'',
        ''      if not (exists settings set "'' @ escapedName @ ''") then'',
        ''        make new settings set with properties {name:"'' @ escapedName @ ''"}'',
        ''      end if'',
        '''',
        ''      set targetSettings to settings set "'' @ escapedName @ ''"'',
        ''      set background color of targetSettings to '' @ (hexToRGB (background colors)),
        ''      set normal text color of targetSettings to '' @ (hexToRGB (foreground colors)),
        ''      set cursor color of targetSettings to '' @ (hexToRGB (cursor colors)),
        '''',
        ''      -- Set as default and startup profile'',
        ''      set default settings to targetSettings'',
        ''      set startup settings to targetSettings'',
        ''    end tell'',
        ''  '']\<close>

definition applyScript :: "string \<Rightarrow> string" where
  \<open>applyScript escapedName =
     join_lines
       ['''',
        ''        tell application "Terminal"'',
        ''          set targetSettings to settings set "'' @ escapedName @ ''"'',
        ''          if (count of windows) > 0 then'',
        ''            repeat with w in windows'',
        ''              try'',
        ''                set current settings of selected tab of w to targetSettings'',
        ''              end try'',
        ''            end repeat'',
        ''          end if'',
        ''        end tell'',
        ''      '']\<close>

definition terminal_app_install :: "world \<Rightarrow> string \<Rightarrow> ThemeColors \<Rightarrow> outcome" where
  \<open>terminal_app_install w themeName colors =
     (let escapedName = escape_double_quotes themeName in
      case execAsync w (osascript (createProfileScript escapedName colors)) of
        (Some err, w1) \<Rightarrow>
          Inr (failed '''' ''Failed to create Terminal profile. Make sure Terminal.app is running.'', w1)
      | (None, w1) \<Rightarrow>
          (case execAsync w1 (osascript (applyScript escapedName)) of
             (None, w2) \<Rightarrow>
               Inr (succeeded '''' (''Theme "'' @ themeName @ ''" applied! All open Terminal windows updated.''), w2)
           | (Some err, w2) \<Rightarrow>
               Inr (succeeded ''''
                 (''Theme "'' @ themeName @ ''" saved to Terminal profiles. Select it in Terminal '' @ arrow @ '' Settings '' @ arrow @ '' Profiles, or open a new window.''), w2)))\<close>

definition installToTerminalApp :: "world \<Rightarrow> database \<Rightarrow> string \<Rightarrow> outcome" where
  "installToTerminalApp w db themeId =
     (let colors = getThemeColors db themeId;
          themeName = getThemeName db themeId in
      case colors of
        None \<Rightarrow> Inr (theme_not_found, w)
      | Some c \<Rightarrow> terminal_app_install w themeName c)"

definition terminal_default_script :: "string \<Rightarrow> ThemeColors \<Rightarrow> string" where
  \<open>terminal_default_script escapedName colors =
     join_lines
       ['''',
        ''    tell application "Terminal"'',
        ''      -- Create or update the profile (settings set)'',
        ''      if not (exists settings set "'' @ escapedName @ ''") then'',
        ''        set newSettings to make new settings set with properties {name:"'' @ escapedName @ ''"}'',
        ''      end if'',
        '''',
        ''      tell settings set "'' @ escapedName @ ''"'',
        ''        set background color to '' @ (hexToRGB (background colors)),
        ''        set normal text color to '' @ (hexToRGB (foreground colors)),
        ''        set cursor color to '' @ (hexToRGB (cursor colors)),
        ''      end tell'',
        '''',
        ''      -- Set as default profile'',
        ''      set default settings to settings set "'' @ escapedName @ ''"'',
        '''',
        ''      -- Also set startup settings (for new windows)'',
        ''      set startup settings to settings set "'' @ escapedName @ ''"'',
        ''    end tell'',
        ''  '']\<close>

definition terminal_default_install :: "world \<Rightarrow> string \<Rightarrow> ThemeColors \<Rightarrow> outcome" where
  \<open>terminal_default_install w themeName colors =
     (let escapedName = escape_double_quotes themeName in
      case execAsync w (osascript (terminal_default_script escapedName colors)) of
        (None, w1) \<Rightarrow>
          Inr (succeeded '''' (''Theme "'' @ themeName @ ''" is now the default Terminal.app profile! New windows will use this theme.''), w1)
      | (Some err, w1) \<Rightarrow> Inr (failed '''' (''Failed to set default: '' @ err), w1))\<close>

definition setTerminalDefault :: "world \<Rightarrow> database \<Rightarrow> string \<Rightarrow> outcome" where
  "setTerminalDefault w db themeId =
     (let colors = getThemeColors db themeId;
          themeName = getThemeName db themeId in
      case colors of
        None \<Rightarrow> Inr (theme_not_found, w)
      | Some c \<Rightarrow> terminal_default_install w themeName c)"

section \<open>installToWindowsTerminal\<close>

definition wt_scheme :: "string \<Rightarrow> ThemeColors \<Rightarrow> json" where
  "wt_scheme themeName colors =
     JObj [(''name'', JStr themeName),
           (''background'', JStr (background colors)),
           (''foreground'', JStr (foreground colors)),
           (''cursorColor'', JStr (cursor colors)),
           (''selectionBackground'', JStr (selection colors)),
           (''black'', JStr (black (ansi colors))),
           (''red'', JStr (red (ansi colors))),
           (''green'', JStr (green (ansi colors))),
           (''yellow'', JStr (yellow (ansi colors))),
           (''blue'', JStr (blue (ansi colors))),
           (''purple'', JStr (magenta (ansi colors))),
           (''cyan'', JStr (cyan (ansi colors))),
           (''white'', JStr (white (ansi colors))),
           (''brightBlack'', JStr (brightBlack (ansi colors))),
           (''brightRed'', JStr (brightRed (ansi colors))),
           (''brightGreen'', JStr (brightGreen (ansi colors))),
           (''brightYellow'', JStr (brightYellow (ansi colors))),
           (''brightBlue'', JStr (brightBlue (ansi colors))),
           (''brightPurple'', JStr (brightMagenta (ansi colors))),
           (''brightCyan'', JStr (brightCyan (ansi colors))),
           (''brightWhite'', JStr (brightWhite (ansi colors)))]"

text \<open>
  The callback of \<open>filter\<close>, \<open>s.name !== themeName\<close>: reading \<open>name\<close> of \<open>null\<close> throws, an
  object has the property or not, and any other value has no such property.
\<close>

definition keep_scheme :: "string \<Rightarrow> json \<Rightarrow> js_error + bool" where
  "keep_scheme themeName s =
     (case s of
        JNull \<Rightarrow> Inl TypeError
      | JObj kvs \<Rightarrow> Inr (map_of kvs ''name'' \<noteq> Some (JStr themeName))
      | _ \<Rightarrow> Inr True)"

fun filter_schemes :: "string \<Rightarrow> json list \<Rightarrow> js_error + json list" where
  "filter_schemes themeName [] = Inr []"
| "filter_schemes themeName (s # ss) =
     (case keep_scheme themeName s of
        Inl e \<Rightarrow> Inl e
      | Inr keep \<Rightarrow>
          (case filter_schemes themeName ss of
             Inl e \<Rightarrow> Inl e
           | Inr kept \<Rightarrow> Inr (if keep then s # kept else kept)))"

text \<open>
  Lines 475 to 481 on the value of \<open>settings.profiles\<close>, as \<open>JSON.stringify\<close> then writes it.
  A property set on an array is kept by the array and left out by \<open>JSON.stringify\<close>; a
  property set on a number, a string or a boolean throws (the module is in strict mode).
\<close>

definition update_profiles :: "string \<Rightarrow> json option \<Rightarrow> js_error + json" where
  "update_profiles themeName profiles =
     (case (if falsy profiles then Some (JObj [(''defaults'', JObj [])]) else profiles) of
        Some (JObj kvs) \<Rightarrow>
          (case (if falsy (map_of kvs ''defaults'') then Some (JObj [])
                 else map_of kvs ''defaults'') of
             Some (JObj d) \<Rightarrow>
               Inr (JObj (AList.update ''defaults''
                      (JObj (AList.update ''colorScheme'' (JStr themeName) d)) kvs))
           | Some (JArr xs) \<Rightarrow> Inr (JObj kvs)
           | _ \<Rightarrow> Inl TypeError)
      | Some (JArr xs) \<Rightarrow> Inr (JArr xs)
      | _ \<Rightarrow> Inl TypeError)"

text \<open>
  Lines 463 to 481 on the parsed settings, as \<open>JSON.stringify\<close> then writes them: \<open>schemes\<close>
  is made an array when it is falsy, filtered by name, and the new scheme is pushed; then
  the profile defaults are pointed at the theme. Settings that are \<open>null\<close>, a number, a string
  or a boolean throw; on settings that are an array every property is set on the array and
  none is written.
\<close>

definition wt_update :: "string \<Rightarrow> ThemeColors \<Rightarrow> json \<Rightarrow> js_error + json" where
  "wt_update themeName colors settings =
     (case settings of
        JObj kvs \<Rightarrow>
          (case (if falsy (map_of kvs ''schemes'') then Some (JArr []) else map_of kvs ''schemes'') of
             Some (JArr schemes) \<Rightarrow>
               (case filter_schemes themeName schemes of
                  Inl e \<Rightarrow> Inl e
                | Inr kept \<Rightarrow>
                    let kvs1 = AList.update ''schemes''
                                 (JArr (kept @ [wt_scheme themeName colors])) kvs in
                    (case update_profiles themeName (map_of kvs1 ''profiles'') of
                       Inl e \<Rightarrow> Inl e
                     | Inr profiles \<Rightarrow> Inr (JObj (AList.update ''profiles'' profiles kvs1))))
           | _ \<Rightarrow> Inl TypeError)
      | JArr xs \<Rightarrow> Inr (JArr xs)
      | _ \<Rightarrow> Inl TypeError)"

definition wt_settings_paths :: "world \<Rightarrow> string list" where
  "wt_settings_paths w =
     (let localAppData =
            env_or w ''LOCALAPPDATA'' (path_join w [os_homedir w, ''AppData'', ''Local'']) in
      [path_join w [localAppData,
         ''Packages/Microsoft.WindowsTerminal_8wekyb3d8bbwe/LocalState/settings.json''],
       path_join w [localAppData,
         ''Packages/Microsoft.WindowsTerminalPreview_8wekyb3d8bbwe/LocalState/settings.json''],
       path_join w [localAppData, ''Microsoft/Windows Terminal/settings.json'']])"

definition windows_terminal_install :: "world \<Rightarrow> string \<Rightarrow> ThemeColors \<Rightarrow> outcome" where
  \<open>windows_terminal_install w themeName colors =
     (let actualSettingsPath =
            (case find (fs_exists w) (wt_settings_paths w) of None \<Rightarrow> '''' | Some p \<Rightarrow> p) in
      if actualSettingsPath = [] then
        Inr (failed '''' ''Windows Terminal settings not found. Is Windows Terminal installed?'', w)
      else
        (case fs_read w actualSettingsPath of
           Inl err \<Rightarrow>
             Inr (failed actualSettingsPath
                   (''Failed to update Windows Terminal settings: '' @ err), w)
         | Inr settingsContent \<Rightarrow>
             (case JSON_parse w (jsonc_strip settingsContent) of
                Inl parseErr \<Rightarrow>
                  Inr (failed actualSettingsPath
                        (''Failed to parse Windows Terminal settings: '' @ parseErr), w)
              | Inr settings \<Rightarrow>
                  (case wt_update themeName colors settings of
                     Inl e \<Rightarrow>
                       Inr (failed actualSettingsPath
                             (''Failed to update Windows Terminal settings: '' @ error_text w e), w)
                   | Inr settings' \<Rightarrow>
                       (case writeFileSync w actualSettingsPath (JSON_stringify w settings' 4) of
                          Inl err \<Rightarrow>
                            Inr (failed actualSettingsPath
                                  (''Failed to update Windows Terminal settings: '' @ err), w)
                        | Inr w1 \<Rightarrow>
                            Inr (succeeded actualSettingsPath
                                  (''Theme "'' @ themeName @ ''" applied to Windows Terminal! All open windows updated.''), w1))))))\<close>

definition installToWindowsTerminal :: "world \<Rightarrow> database \<Rightarrow> string \<Rightarrow> outcome" where
  "installToWindowsTerminal w db themeId =
     (let colors = getThemeColors db themeId;
          themeName = getThemeName db themeId in
      case colors of
        None \<Rightarrow> Inr (theme_not_found, w)
      | Some c \<Rightarrow> windows_terminal_install w themeName c)"

section \<open>installToAlacritty\<close>

definition tomlContent :: "string \<Rightarrow> ThemeColors \<Rightarrow> string" where
  \<open>tomlContent themeName colors =
     join_lines
       [''# ShellShade Theme: '' @ themeName,
        ''# Generated by ShellShade'',
        '''',
        ''[colors.primary]'',
        ''background = "'' @ (background colors) @ ''"'',
        ''foreground = "'' @ (foreground colors) @ ''"'',
        '''',
        ''[colors.cursor]'',
        ''text = "'' @ (cursorText colors) @ ''"'',
        ''cursor = "'' @ (cursor colors) @ ''"'',
        '''',
        ''[colors.selection]'',
        ''text = "'' @ (selectionText colors) @ ''"'',
        ''background = "'' @ (selection colors) @ ''"'',
        '''',
        ''[colors.normal]'',
        ''black = "'' @ (black (ansi colors)) @ ''"'',
        ''red = "'' @ (red (ansi colors)) @ ''"'',
        ''green = "'' @ (green (ansi colors)) @ ''"'',
        ''yellow = "'' @ (yellow (ansi colors)) @ ''"'',
        ''blue = "'' @ (blue (ansi colors)) @ ''"'',
        ''magenta = "'' @ (magenta (ansi colors)) @ ''"'',
        ''cyan = "'' @ (cyan (ansi colors)) @ ''"'',
        ''white = "'' @ (white (ansi colors)) @ ''"'',
        '''',
        ''[colors.bright]'',
        ''black = "'' @ (brightBlack (ansi colors)) @ ''"'',
        ''red = "'' @ (brightRed (ansi colors)) @ ''"'',
        ''green = "'' @ (brightGreen (ansi colors)) @ ''"'',
        ''yellow = "'' @ (brightYellow (ansi colors)) @ ''"'',
        ''blue = "'' @ (brightBlue (ansi colors)) @ ''"'',
        ''magenta = "'' @ (brightMagenta (ansi colors)) @ ''"'',
        ''cyan = "'' @ (brightCyan (ansi colors)) @ ''"'',
        ''white = "'' @ (brightWhite (ansi colors)) @ ''"'',
        '''']\<close>

text \<open>
  \<^verbatim>\<open>replace(/\[colors\.primary\][\s\S]*?(?=\[|$)/g, '')\<close> and its four siblings: at every
  occurrence of the section header, the header and the shortest text up to the next \<open>[\<close> or
  to the end of the input are removed, and the search resumes there.
\<close>

function remove_section :: "string \<Rightarrow> string \<Rightarrow> string" where
  "remove_section header [] = []"
| "remove_section header (c # cs) =
     (if header \<noteq> [] \<and> prefix header (c # cs)
      then remove_section header
             (dropWhile (\<lambda>x. x \<noteq> CHR ''['') (drop (length header) (c # cs)))
      else c # remove_section header cs)"
  by pat_completeness auto
termination
proof (relation "measure (\<lambda>(header, s). length s)", goal_cases)
  case 1
  show ?case by simp
next
  case (2 header c cs)
  have "length (dropWhile (\<lambda>x. x \<noteq> CHR ''['') (drop (length header) (c # cs)))
        \<le> length (drop (length header) (c # cs))"
    by (rule length_dropWhile_le)
  moreover from 2 obtain h hs where "header = h # hs"
    by (cases header) auto
  then have "length (drop (length header) (c # cs)) \<le> length cs"
    by simp
  ultimately show ?case by simp
qed simp

text \<open>
  \<^verbatim>\<open>replace(/# ShellShade Theme:.*\n# Generated by ShellShade\n*/g, '')\<close>. A match at the
  start of the input: the first comment up to its line end (\<open>.\<close> matches no line
  terminator), a line feed, the second comment and every line feed that follows.
  \<open>header_match\<close> returns the input after the match.
\<close>

definition header_match :: "string \<Rightarrow> string option" where
  "header_match s =
     (if prefix ''# ShellShade Theme:'' s then
        (let r = dropWhile (\<lambda>c. \<not> js_line_terminator c) (drop (length ''# ShellShade Theme:'') s) in
         if prefix (nl # ''# Generated by ShellShade'') r
         then Some (dropWhile (\<lambda>c. c = nl) (drop (length (nl # ''# Generated by ShellShade'')) r))
         else None)
      else None)"

lemma header_match_shorter: "header_match s = Some r \<Longrightarrow> length r < length s"
proof -
  assume m: "header_match s = Some r"
  let ?a = "drop (length ''# ShellShade Theme:'') s"
  let ?b = "dropWhile (\<lambda>c. \<not> js_line_terminator c) ?a"
  let ?c = "drop (length (nl # ''# Generated by ShellShade'')) ?b"
  from m have p: "prefix ''# ShellShade Theme:'' s" and r: "r = dropWhile (\<lambda>c. c = nl) ?c"
    by (auto simp: header_match_def Let_def split: if_splits)
  from p have "length ''# ShellShade Theme:'' \<le> length s"
    by (rule prefix_length_le)
  then have "length ?a < length s" by simp
  moreover have "length r \<le> length ?c"
    unfolding r by (rule length_dropWhile_le)
  moreover have "length ?c \<le> length ?b" by simp
  moreover have "length ?b \<le> length ?a"
    by (rule length_dropWhile_le)
  ultimately show ?thesis by linarith
qed

function remove_headers :: "string \<Rightarrow> string" where
  "remove_headers [] = []"
| "remove_headers (c # cs) =
     (case header_match (c # cs) of
        Some rest \<Rightarrow> remove_headers rest
      | None \<Rightarrow> c # remove_headers cs)"
  by pat_completeness auto
termination
  by (relation "measure length") (auto dest: header_match_shorter)

text \<open>Lines 572 to 579: the five sections and the comment header are removed from the
  existing content, which is then trimmed.\<close>

definition strip_color_sections :: "string \<Rightarrow> string" where
  "strip_color_sections existingContent =
     trim (remove_headers
       (remove_section ''[colors.bright]''
         (remove_section ''[colors.normal]''
           (remove_section ''[colors.selection]''
             (remove_section ''[colors.cursor]''
               (remove_section ''[colors.primary]'' existingContent))))))"

text \<open>Line 583, on the stripped content (empty when there is no file).\<close>

definition finalContent :: "string \<Rightarrow> string \<Rightarrow> string" where
  "finalContent existingContent toml =
     (if existingContent \<noteq> [] then existingContent @ [nl, nl] @ toml else toml)"

definition alacritty_configPath :: "world \<Rightarrow> string" where
  "alacritty_configPath w =
     (case process_platform w of
        win32 \<Rightarrow> path_join w [env_or w ''APPDATA'' '''', ''alacritty'', ''alacritty.toml'']
      | darwin \<Rightarrow> path_join w [os_homedir w, ''.config'', ''alacritty'', ''alacritty.toml'']
      | linux \<Rightarrow>
          (let xdgConfig = env_or w ''XDG_CONFIG_HOME'' (path_join w [os_homedir w, ''.config''])
           in path_join w [xdgConfig, ''alacritty'', ''alacritty.toml'']))"

definition alacritty_install :: "world \<Rightarrow> string \<Rightarrow> ThemeColors \<Rightarrow> outcome" where
  \<open>alacritty_install w themeName colors =
     (let configPath = alacritty_configPath w;
          configDir = path_dirname w configPath in
      case ensure_directory w configDir of
        Inl err \<Rightarrow> Inl err
      | Inr w1 \<Rightarrow>
          (case (if fs_exists w1 configPath
                 then map_sum id strip_color_sections (fs_read w1 configPath)
                 else Inr '''') of
             Inl err \<Rightarrow>
               Inr (failed configPath (''Failed to update Alacritty config: '' @ err), w1)
           | Inr existingContent \<Rightarrow>
               (case writeFileSync w1 configPath
                       (finalContent existingContent (tomlContent themeName colors)) of
                  Inl err \<Rightarrow>
                    Inr (failed configPath (''Failed to update Alacritty config: '' @ err), w1)
                | Inr w2 \<Rightarrow>
                    Inr (succeeded configPath
                          (''Theme "'' @ themeName @ ''" applied to Alacritty! Restart Alacritty to see changes.''), w2))))\<close>

definition installToAlacritty :: "world \<Rightarrow> database \<Rightarrow> string \<Rightarrow> outcome" where
  "installToAlacritty w db themeId =
     (let colors = getThemeColors db themeId;
          themeName = getThemeName db themeId in
      case colors of
        None \<Rightarrow> Inr (theme_not_found, w)
      | Some c \<Rightarrow> alacritty_install w themeName c)"

section \<open>installToKitty\<close>

definition kittyTheme :: "string \<Rightarrow> ThemeColors \<Rightarrow> string" where
  \<open>kittyTheme themeName colors =
     join_lines
       [''# ShellShade Theme: '' @ themeName,
        ''# Generated by ShellShade'',
        '''',
        ''foreground '' @ (foreground colors),
        ''background '' @ (background colors),
        ''cursor '' @ (cursor colors),
        ''cursor_text_color '' @ (cursorText colors),
        ''selection_foreground '' @ (selectionText colors),
        ''selection_background '' @ (selection colors),
        '''',
        ''# Normal colors'',
        ''color0 '' @ (black (ansi colors)),
        ''color1 '' @ (red (ansi colors)),
        ''color2 '' @ (green (ansi colors)),
        ''color3 '' @ (yellow (ansi colors)),
        ''color4 '' @ (blue (ansi colors)),
        ''color5 '' @ (magenta (ansi colors)),
        ''color6 '' @ (cyan (ansi colors)),
        ''color7 '' @ (white (ansi colors)),
        '''',
        ''# Bright colors'',
        ''color8 '' @ (brightBlack (ansi colors)),
        ''color9 '' @ (brightRed (ansi colors)),
        ''color10 '' @ (brightGreen (ansi colors)),
        ''color11 '' @ (brightYellow (ansi colors)),
        ''color12 '' @ (brightBlue (ansi colors)),
        ''color13 '' @ (brightMagenta (ansi colors)),
        ''color14 '' @ (brightCyan (ansi colors)),
        ''color15 '' @ (brightWhite (ansi colors)),
        '''']\<close>

text \<open>\<open>s.includes(t)\<close>\<close>

fun js_includes :: "string \<Rightarrow> string \<Rightarrow> bool" where
  "js_includes [] t = (t = [])"
| "js_includes (c # cs) t = (prefix t (c # cs) \<or> js_includes cs t)"

definition kitty_configDir :: "world \<Rightarrow> string" where
  "kitty_configDir w =
     (if process_platform w = darwin then path_join w [os_homedir w, ''.config'', ''kitty'']
      else (let xdgConfig = env_or w ''XDG_CONFIG_HOME'' (path_join w [os_homedir w, ''.config''])
            in path_join w [xdgConfig, ''kitty'']))"

definition kitty_install :: "world \<Rightarrow> string \<Rightarrow> ThemeColors \<Rightarrow> outcome" where
  \<open>kitty_install w themeName colors =
     (let configDir = kitty_configDir w;
          themePath = path_join w [configDir, ''current-theme.conf''];
          configPath = path_join w [configDir, ''kitty.conf''] in
      case ensure_directory w configDir of
        Inl err \<Rightarrow> Inl err
      | Inr w1 \<Rightarrow>
          (case writeFileSync w1 themePath (kittyTheme themeName colors) of
             Inl err \<Rightarrow> Inr (failed themePath (''Failed to update Kitty config: '' @ err), w1)
           | Inr w2 \<Rightarrow>
               (case (if fs_exists w2 configPath then fs_read w2 configPath else Inr '''') of
                  Inl err \<Rightarrow>
                    Inr (failed themePath (''Failed to update Kitty config: '' @ err), w2)
                | Inr kittyConf \<Rightarrow>
                    (case (if \<not> js_includes kittyConf ''include current-theme.conf''
                           then writeFileSync w2 configPath
                                  (''include current-theme.conf'' @ [nl] @ kittyConf)
                           else Inr w2) of
                       Inl err \<Rightarrow>
                         Inr (failed themePath (''Failed to update Kitty config: '' @ err), w2)
                     | Inr w3 \<Rightarrow>
                         Inr (succeeded themePath
                               (''Theme "'' @ themeName @ ''" applied to Kitty! Press Ctrl+Shift+F5 to reload or restart Kitty.''), w3)))))\<close>

definition installToKitty :: "world \<Rightarrow> database \<Rightarrow> string \<Rightarrow> outcome" where
  "installToKitty w db themeId =
     (let colors = getThemeColors db themeId;
          themeName = getThemeName db themeId in
      case colors of
        None \<Rightarrow> Inr (theme_not_found, w)
      | Some c \<Rightarrow> kitty_install w themeName c)"

section \<open>The colour commands of a script\<close>

text \<open>
  The lines of a script, and the lines that set a colour property: an AppleScript statement
  \<open>set \<dots> color \<dots> to \<dots>\<close>, the property named before any string literal of the line.
\<close>

primrec lines_of :: "string \<Rightarrow> string list" where
  "lines_of [] = [[]]"
| "lines_of (c # s) =
     (if js_line_terminator c then [] # lines_of s
      else (case lines_of s of [] \<Rightarrow> [[c]] | l # ls \<Rightarrow> (c # l) # ls))"

definition color_command :: "string \<Rightarrow> bool" where
  "color_command line =
     (let statement = dropWhile (\<lambda>c. c = CHR '' '') line
      in prefix ''set '' statement
         \<and> js_includes (takeWhile (\<lambda>c. c \<noteq> dq) statement) '' color '')"

section \<open>An example database and world\<close>

text \<open>A Linux machine with an empty file system on which every call succeeds, paths
  joined with a slash, and a database with one theme of two colour rows.\<close>

definition example_join :: "string list \<Rightarrow> string" where
  "example_join parts = foldr (\<lambda>p r. if r = [] then p else p @ ''/'' @ r) parts []"

definition example_dirname :: "string \<Rightarrow> string" where
  "example_dirname p = rev (drop 1 (dropWhile (\<lambda>c. c \<noteq> CHR ''/'') (rev p)))"

definition example_world :: world where
  "example_world =
     \<lparr>process_platform = linux,
      process_env = (\<lambda>name. None),
      os_homedir = ''/home/user'',
      app_home = ''/home/user'',
      path_join = example_join,
      path_dirname = example_dirname,
      fs_exists = (\<lambda>p. False),
      fs_read = (\<lambda>p. Inl ''ENOENT''),
      mkdir_fails = (\<lambda>p. None),
      write_fails = (\<lambda>p. None),
      exec_fails = (\<lambda>command. None),
      executed = [],
      JSON_parse = (\<lambda>source. Inl ''SyntaxError''),
      JSON_stringify = (\<lambda>v indent. ''{}''),
      error_text = (\<lambda>e. ''TypeError'')\<rparr>"

definition example_database :: database where
  "example_database =
     \<lparr>theme_colors = [(''t1'', ''background'', ''#1e1e2e''), (''t1'', ''foreground'', ''#cdd6f4'')],
      themes = [(''t1'', ''Mocha'')]\<rparr>"

definition example_colors :: ThemeColors where
  "example_colors =
     \<lparr>background = ''#1e1e2e'', foreground = ''#cdd6f4'', cursor = ''#ffffff'',
      cursorText = ''#000000'', selection = ''#444444'', selectionText = ''#ffffff'',
      ansi = \<lparr>black = ''#000000'', red = ''#ff0000'', green = ''#00ff00'', yellow = ''#ffff00'',
        blue = ''#0000ff'', magenta = ''#ff00ff'', cyan = ''#00ffff'', white = ''#ffffff'',
        brightBlack = ''#666666'', brightRed = ''#ff6666'', brightGreen = ''#66ff66'',
        brightYellow = ''#ffff66'', brightBlue = ''#6666ff'', brightMagenta = ''#ff66ff'',
        brightCyan = ''#66ffff'', brightWhite = ''#ffffff''\<rparr>\<rparr>"

text \<open>The same machine when no running terminal can be scripted: a command succeeds only
  if it creates a settings set.\<close>

definition example_world_no_apply :: world where
  "example_world_no_apply =
     example_world\<lparr>exec_fails :=
       (\<lambda>command. if js_includes command ''make new settings set'' then None
                  else Some ''execution error'')\<rparr>"

section \<open>Reading the Windows Terminal settings back\<close>

text \<open>
  What is observed of a settings document: the names of the entries of
  \<open>settings.schemes\<close> (an entry has a name when it is an object whose \<open>name\<close> is a string),
  and \<open>settings.profiles.defaults.colorScheme\<close>.
\<close>

definition scheme_name :: "json \<Rightarrow> string option" where
  "scheme_name s =
     (case s of
        JObj kvs \<Rightarrow> (case map_of kvs ''name'' of Some (JStr n) \<Rightarrow> Some n | _ \<Rightarrow> None)
      | _ \<Rightarrow> None)"

definition schemes_of :: "json \<Rightarrow> json list" where
  "schemes_of settings =
     (case settings of
        JObj kvs \<Rightarrow> (case map_of kvs ''schemes'' of Some (JArr xs) \<Rightarrow> xs | _ \<Rightarrow> [])
      | _ \<Rightarrow> [])"

definition scheme_names :: "json \<Rightarrow> string list" where
  "scheme_names settings = List.map_filter scheme_name (schemes_of settings)"

definition colorScheme_of :: "json \<Rightarrow> json option" where
  "colorScheme_of settings =
     (case settings of
        JObj kvs \<Rightarrow>
          (case map_of kvs ''profiles'' of
             Some (JObj p) \<Rightarrow>
               (case map_of p ''defaults'' of
                  Some (JObj d) \<Rightarrow> map_of d ''colorScheme''
                | _ \<Rightarrow> None)
           | _ \<Rightarrow> None)
      | _ \<Rightarrow> None)"

text \<open>Settings whose scheme list has the name \<open>Mocha\<close> twice.\<close>

definition duplicate_settings :: json where
  "duplicate_settings =
     JObj [(''schemes'', JArr [JObj [(''name'', JStr ''Mocha'')], JObj [(''name'', JStr ''Mocha'')]])]"

section \<open>A Windows machine whose profiles are a list\<close>

text \<open>
  Windows Terminal reads \<open>profiles\<close> as an object with \<open>defaults\<close> and \<open>list\<close>, or as the
  list of profiles itself. The machine of this example has the packaged settings file, with
  the second form and an empty scheme list. Paths are joined with a backslash, a slash in a
  part becoming one. \<open>JSON.parse\<close> and \<open>JSON.stringify\<close> are given on the documents of the
  example: the file at the start, and the file after the theme \<open>Mocha\<close> of the example
  database is installed, as \<open>JSON.stringify(settings, null, 4)\<close> prints it.
\<close>

definition windows_join :: "string list \<Rightarrow> string" where
  "windows_join parts =
     map (\<lambda>c. if c = CHR ''/'' then backslash else c)
       (foldr (\<lambda>p r. if r = [] then p else p @ [backslash] @ r) parts [])"

definition windows_settings_path :: string where
  "windows_settings_path =
     windows_join [''C:'', ''Users'', ''user'', ''AppData'', ''Local'', ''Packages'',
       ''Microsoft.WindowsTerminal_8wekyb3d8bbwe'', ''LocalState'', ''settings.json'']"

definition list_profiles_text :: string where
  \<open>list_profiles_text =
     join_lines
       [''{'',
        ''    "profiles": ['',
        ''        {'',
        ''            "name": "PowerShell"'',
        ''        }'',
        ''    ],'',
        ''    "schemes": []'',
        ''}'']\<close>

definition list_profiles_written :: string where
  \<open>list_profiles_written =
     join_lines
       [''{'',
        ''    "profiles": ['',
        ''        {'',
        ''            "name": "PowerShell"'',
        ''        }'',
        ''    ],'',
        ''    "schemes": ['',
        ''        {'',
        ''            "name": "Mocha",'',
        ''            "background": "#1e1e2e",'',
        ''            "foreground": "#cdd6f4",'',
        ''            "cursorColor": "#ffffff",'',
        ''            "selectionBackground": "#444444",'',
        ''            "black": "#000000",'',
        ''            "red": "#ff0000",'',
        ''            "green": "#00ff00",'',
        ''            "yellow": "#ffff00",'',
        ''            "blue": "#0000ff",'',
        ''            "purple": "#ff00ff",'',
        ''            "cyan": "#00ffff",'',
        ''            "white": "#ffffff",'',
        ''            "brightBlack": "#666666",'',
        ''            "brightRed": "#ff6666",'',
        ''            "brightGreen": "#66ff66",'',
        ''            "brightYellow": "#ffff66",'',
        ''            "brightBlue": "#6666ff",'',
        ''            "brightPurple": "#ff66ff",'',
        ''            "brightCyan": "#66ffff",'',
        ''            "brightWhite": "#ffffff"'',
        ''        }'',
        ''    ]'',
        ''}'']\<close>

definition list_profiles_start :: json where
  "list_profiles_start =
     JObj [(''profiles'', JArr [JObj [(''name'', JStr ''PowerShell'')]]), (''schemes'', JArr [])]"

definition list_profiles_after :: json where
  "list_profiles_after =
     JObj [(''profiles'', JArr [JObj [(''name'', JStr ''PowerShell'')]]),
           (''schemes'', JArr [wt_scheme ''Mocha'' example_colors])]"

definition windows_world :: world where
  "windows_world =
     \<lparr>process_platform = win32,
      process_env = (\<lambda>name. if name = ''LOCALAPPDATA''
                       then Some (windows_join [''C:'', ''Users'', ''user'', ''AppData'', ''Local''])
                       else None),
      os_homedir = windows_join [''C:'', ''Users'', ''user''],
      app_home = windows_join [''C:'', ''Users'', ''user''],
      path_join = windows_join,
      path_dirname = (\<lambda>p. rev (drop 1 (dropWhile (\<lambda>c. c \<noteq> backslash) (rev p)))),
      fs_exists = (\<lambda>p. p = windows_settings_path),
      fs_read = (\<lambda>p. if p = windows_settings_path then Inr list_profiles_text else Inl ''ENOENT''),
      mkdir_fails = (\<lambda>p. None),
      write_fails = (\<lambda>p. None),
      exec_fails = (\<lambda>command. None),
      executed = [],
      JSON_parse = (\<lambda>source. if source = list_profiles_text then Inr list_profiles_start
                      else if source = list_profiles_written then Inr list_profiles_after
                      else Inl ''SyntaxError''),
      JSON_stringify = (\<lambda>v indent. if v = list_profiles_after \<and> indent = 4
                          then list_profiles_written else ''{}''),
      error_text = (\<lambda>e. ''TypeError'')\<rparr>"

section \<open>Repeated Alacritty installs\<close>

text \<open>The content \<open>installToAlacritty\<close> writes, from the content of the file (\<open>None\<close> when
  there is none) and the theme; and a sequence of installs, each on the file the one before
  wrote.\<close>

definition alacritty_file_after :: "string option \<Rightarrow> string \<Rightarrow> ThemeColors \<Rightarrow> string" where
  "alacritty_file_after file themeName colors =
     finalContent
       (case file of None \<Rightarrow> [] | Some existingContent \<Rightarrow> strip_color_sections existingContent)
       (tomlContent themeName colors)"

fun alacritty_installs :: "(string \<times> ThemeColors) list \<Rightarrow> string option \<Rightarrow> string option" where
  "alacritty_installs [] file = file"
| "alacritty_installs (theme # rest) file =
     alacritty_installs rest (Some (alacritty_file_after file (fst theme) (snd theme)))"

text \<open>
  Text the patterns do not touch: it has none of the five section headers and no generated
  comment, and no white space at its ends. A theme whose name has no \<open>[\<close> and no line
  break and whose colours have no \<open>[\<close>.
\<close>

definition untouched :: "string \<Rightarrow> bool" where
  "untouched u =
     (\<not> js_includes u ''[colors.primary]'' \<and> \<not> js_includes u ''[colors.cursor]''
      \<and> \<not> js_includes u ''[colors.selection]'' \<and> \<not> js_includes u ''[colors.normal]''
      \<and> \<not> js_includes u ''[colors.bright]'' \<and> \<not> js_includes u ''# ShellShade Theme:''
      \<and> trim u = u)"

definition no_bracket :: "string \<Rightarrow> bool" where
  "no_bracket s = (CHR ''['' \<notin> set s)"

definition one_line :: "string \<Rightarrow> bool" where
  "one_line s = list_all (\<lambda>c. \<not> js_line_terminator c) s"

definition plain_theme :: "string \<times> ThemeColors \<Rightarrow> bool" where
  "plain_theme theme =
     (one_line (fst theme)
      \<and> list_all no_bracket
          (fst theme # map (\<lambda>entry. fst (snd entry) (snd theme)) color_fields))"

text \<open>
  A Linux machine whose Alacritty configuration has a colour section that is commented out,
  a setting and a font section; and a theme whose name has a line feed.
\<close>

definition commented_out_config :: string where
  \<open>commented_out_config =
     join_lines [''# [colors.primary]'', ''# background = "#000000"'',
       ''live_config_reload = true'', ''[font]'', ''size = 12'', '''']\<close>

definition alacritty_world :: world where
  "alacritty_world =
     example_world\<lparr>
       fs_exists := (\<lambda>p. p = ''/home/user/.config/alacritty''
                          \<or> p = ''/home/user/.config/alacritty/alacritty.toml''),
       fs_read := (\<lambda>p. if p = ''/home/user/.config/alacritty/alacritty.toml''
                        then Inr commented_out_config else Inl ''ENOENT'')\<rparr>"

definition two_line_name :: string where
  "two_line_name = ''Mocha'' @ [nl] @ ''Latte''"

text \<open>Text made of sections: each a header, given without its opening bracket, and a body.\<close>

definition sections_text :: "(string \<times> string) list \<Rightarrow> string" where
  "sections_text sections = concat (map (\<lambda>section. (CHR ''['' # fst section) @ snd section) sections)"

definition toml_comment :: "string \<Rightarrow> string" where
  "toml_comment themeName =
     ''# ShellShade Theme: '' @ themeName @ [nl] @ ''# Generated by ShellShade'' @ [nl, nl]"

text \<open>A configuration with a font section, and the same followed by an old colour
  section.\<close>

definition font_config :: string where
  "font_config = join_lines [''[font]'', ''size = 12'']"

definition old_colors_config :: string where
  \<open>old_colors_config =
     join_lines [''[font]'', ''size = 12'', '''', ''[colors.primary]'',
       ''background = "#000000"'', '''']\<close>

section \<open>The profile file name is a fixed point of the slug\<close>

lemma hyphen_not_alnum: "\<not> lower_alnum (CHR ''-'')"
  by (simp add: lower_alnum_def)

lemma dropWhile_non_alnum_head:
  "dropWhile (\<lambda>x. \<not> lower_alnum x) cs = [] \<or> lower_alnum (hd (dropWhile (\<lambda>x. \<not> lower_alnum x) cs))"
  using hd_dropWhile [of "\<lambda>x. \<not> lower_alnum x" cs] by auto

lemma replace_chars:
  "list_all (\<lambda>c. lower_alnum c \<or> c = CHR ''-'') (replace_non_alnum_runs s)"
  by (induction s rule: replace_non_alnum_runs.induct) auto

lemma replace_head:
  "replace_non_alnum_runs s = a # r \<Longrightarrow> s \<noteq> [] \<and> (lower_alnum (hd s) \<longrightarrow> a = hd s) \<and> (\<not> lower_alnum (hd s) \<longrightarrow> a = CHR ''-'')"
  by (cases s) (auto split: if_splits)

lemma replace_no_adjacent: "\<not> adjacent_hyphens (replace_non_alnum_runs s)"
proof (induction s rule: replace_non_alnum_runs.induct)
  case 1
  show ?case by simp
next
  case (2 c cs)
  show ?case
  proof (cases "lower_alnum c")
    case True
    with 2 hyphen_not_alnum show ?thesis
      by (cases "replace_non_alnum_runs cs") auto
  next
    case False
    let ?d = "dropWhile (\<lambda>x. \<not> lower_alnum x) cs"
    from False 2 have ih: "\<not> adjacent_hyphens (replace_non_alnum_runs ?d)" by simp
    show ?thesis
    proof (cases "replace_non_alnum_runs ?d")
      case Nil
      with False show ?thesis by simp
    next
      case (Cons a r)
      from replace_head [OF Cons] dropWhile_non_alnum_head [of cs]
      have "lower_alnum a" by auto
      with hyphen_not_alnum have "a \<noteq> CHR ''-''" by auto
      with False ih Cons show ?thesis by simp
    qed
  qed
qed

lemma replace_fixed:
  "list_all (\<lambda>c. lower_alnum c \<or> c = CHR ''-'') s \<Longrightarrow> \<not> adjacent_hyphens s \<Longrightarrow> replace_non_alnum_runs s = s"
proof (induction s rule: replace_non_alnum_runs.induct)
  case 1
  show ?case by simp
next
  case (2 c cs)
  show ?case
  proof (cases "lower_alnum c")
    case True
    with 2 show ?thesis by (cases cs) auto
  next
    case False
    with "2.prems" have c: "c = CHR ''-''" by simp
    have d: "dropWhile (\<lambda>x. \<not> lower_alnum x) cs = cs"
    proof (cases cs)
      case Nil
      then show ?thesis by simp
    next
      case (Cons b bs)
      with "2.prems" c have "b \<noteq> CHR ''-''" by auto
      with "2.prems" Cons have "lower_alnum b" by auto
      with Cons show ?thesis by simp
    qed
    from "2.prems" have "\<not> adjacent_hyphens cs" by (cases cs) auto
    with 2 False d c show ?thesis by simp
  qed
qed

lemma toLowerCase_slug_chars:
  "list_all (\<lambda>c. toLowerCase_char c = c) (''abcdefghijklmnopqrstuvwxyz0123456789'' @ ''-'')"
  by code_simp

lemma toLowerCase_char_fixed: "lower_alnum c \<or> c = CHR ''-'' \<Longrightarrow> toLowerCase_char c = c"
proof -
  assume "lower_alnum c \<or> c = CHR ''-''"
  then have "c \<in> set (''abcdefghijklmnopqrstuvwxyz0123456789'' @ ''-'')"
    unfolding lower_alnum_def by auto
  with toLowerCase_slug_chars show ?thesis
    unfolding list_all_iff by blast
qed

lemma toLowerCase_fixed:
  "list_all (\<lambda>c. lower_alnum c \<or> c = CHR ''-'') s \<Longrightarrow> toLowerCase s = s"
  by (induction s) (auto simp: toLowerCase_def toLowerCase_char_fixed)

text \<open>
  Claim C9. The slug of a theme name, slugged again, is itself; no slug has two adjacent
  hyphens; and the slug of \<open>My Theme!! 2\<close> is \<open>my-theme-2\<close>.
\<close>

theorem slugName_idempotent:
  "slugName (slugName themeName) = slugName themeName
   \<and> \<not> adjacent_hyphens (slugName themeName)
   \<and> slugName ''My Theme!! 2'' = ''my-theme-2''"
proof -
  have a: "list_all (\<lambda>c. lower_alnum c \<or> c = CHR ''-'') (slugName themeName)"
    unfolding slugName_def by (rule replace_chars)
  have b: "\<not> adjacent_hyphens (slugName themeName)"
    unfolding slugName_def by (rule replace_no_adjacent)
  have "slugName (slugName themeName) = replace_non_alnum_runs (slugName themeName)"
    using toLowerCase_fixed [OF a] by (simp add: slugName_def)
  also have "\<dots> = slugName themeName"
    using replace_fixed [OF a b] .
  finally have c: "slugName (slugName themeName) = slugName themeName" .
  have d: "slugName ''My Theme!! 2'' = ''my-theme-2''"
    by (simp add: slugName_def toLowerCase_def toLowerCase_char_def upper_chars_def
        lower_chars_def lower_alnum_def)
  from b c d show ?thesis by simp
qed

section \<open>The colour codec on well-formed input\<close>

lemma is_hex_digit_iff: "is_hex_digit c = (c \<in> set ''0123456789abcdefABCDEF'')"
  unfolding is_hex_digit_def hex_digit_value_def
  by (simp only: map_of_eq_None_iff not_not) (simp add: image_iff)

lemma hex_digit_plain:
  assumes "is_hex_digit c"
  shows "\<not> js_space c" and "c \<noteq> CHR ''-''" and "c \<noteq> CHR ''+''" and "c \<noteq> CHR ''x''" and "c \<noteq> CHR ''X''"
  using assms unfolding is_hex_digit_iff js_space_def by auto

lemma digit_or_zero_le: "digit_or_zero c \<le> 15"
proof (cases "is_hex_digit c")
  case True
  then show ?thesis
    unfolding is_hex_digit_iff digit_or_zero_def hex_digit_value_def by auto
next
  case False
  then show ?thesis
    by (simp add: is_hex_digit_def digit_or_zero_def)
qed

lemma parseInt16_two_digits:
  assumes "is_hex_digit a" and "is_hex_digit b"
  shows "parseInt16 [a, b] = Some (int (16 * digit_or_zero a + digit_or_zero b))"
  using assms hex_digit_plain [OF assms(1)] hex_digit_plain [OF assms(2)]
  by (simp add: parseInt16_def Let_def)

lemma well_formed_hex_shape:
  assumes "well_formed_hex hex"
  obtains a b c d e f where "hex = [CHR ''#'', a, b, c, d, e, f]"
    and "is_hex_digit a" "is_hex_digit b" "is_hex_digit c"
    and "is_hex_digit d" "is_hex_digit e" "is_hex_digit f"
proof -
  from assms have "length hex = 7" by (simp add: well_formed_hex_def)
  then obtain h a b c d e f where h: "hex = [h, a, b, c, d, e, f]"
    by (auto simp: eval_nat_numeral length_Suc_conv)
  with assms that show thesis
    by (auto simp: well_formed_hex_def)
qed

lemma hex_byte_le: "hex_byte k hex \<le> 255"
  using digit_or_zero_le [of "hex ! (2 * k + 1)"] digit_or_zero_le [of "hex ! (2 * k + 2)"]
  by (simp add: hex_byte_def)

lemma round_half_even_le:
  assumes "x \<le> of_int N"
  shows "round_half_even x \<le> N"
proof (cases "\<lfloor>x\<rfloor> = N")
  case True
  with assms have "x - of_int \<lfloor>x\<rfloor> \<le> 0" by simp
  then have "x - of_int \<lfloor>x\<rfloor> < 1 / 2" by simp
  with True show ?thesis by (simp add: round_half_even_def Let_def)
next
  case False
  from assms have "\<lfloor>x\<rfloor> \<le> N" by (simp add: floor_le_iff)
  with False have "\<lfloor>x\<rfloor> + 1 \<le> N" by simp
  then show ?thesis by (simp add: round_half_even_def Let_def)
qed

lemma round_half_even_nonneg:
  assumes "0 \<le> x"
  shows "0 \<le> round_half_even x"
proof -
  from assms have "0 \<le> \<lfloor>x\<rfloor>" by simp
  then show ?thesis by (simp add: round_half_even_def Let_def)
qed

lemma scale_up_unit:
  assumes "scale_up x e = (x', e')" and "0 \<le> x" and "e \<le> 0" and "x \<le> 2 ^ nat (- e)"
  shows "e' \<le> 0 \<and> 0 \<le> x' \<and> x' \<le> 2 ^ nat (- e')"
  using assms
proof (induction x e rule: scale_up.induct)
  case (1 x e)
  show ?case
  proof (cases "x < 2 ^ 52 \<and> - 1074 < e")
    case True
    with 1(2) have s: "scale_up (x * 2) (e - 1) = (x', e')"
      by (simp add: scale_up.simps [of x e])
    from 1(4) have n: "nat (- (e - 1)) = Suc (nat (- e))" by simp
    from 1(5) have "x * 2 \<le> 2 ^ nat (- (e - 1))" unfolding n by simp
    with 1(1) [OF True s] 1(3) 1(4) show ?thesis by simp
  next
    case False
    with 1(2) have "x' = x" "e' = e" by (auto simp: scale_up.simps [of x e])
    with 1(3) 1(4) 1(5) show ?thesis by simp
  qed
qed

text \<open>Rounding to a double does not leave the unit interval: 0 and 1 are doubles.\<close>

lemma to_double_unit:
  assumes "0 \<le> q" and "q \<le> 1"
  shows "0 \<le> to_double q \<and> to_double q \<le> 1"
proof (cases "q = 0")
  case True
  then show ?thesis by (simp add: to_double_def)
next
  case False
  obtain x e where s: "scale_up q 0 = (x, e)" by (cases "scale_up q 0")
  from assms have a: "\<bar>q\<bar> = q" "\<not> 2 ^ 53 \<le> q" "sgn q = 1" using False by simp_all
  from scale_up_unit [OF s assms(1)] assms(2)
  have u: "e \<le> 0" "0 \<le> x" "x \<le> 2 ^ nat (- e)" by simp_all
  have "x \<le> of_int (2 ^ nat (- e))" using u(3) by simp
  then have le: "round_half_even x \<le> 2 ^ nat (- e)" by (rule round_half_even_le)
  then have le': "(of_int (round_half_even x) :: rat) \<le> 2 ^ nat (- e)"
    by (metis of_int_le_iff of_int_numeral of_int_power)
  from u(2) have ge: "0 \<le> round_half_even x" by (rule round_half_even_nonneg)
  have d: "to_double q = of_int (round_half_even x) * scale2 e"
    using False s a by (simp add: to_double_def)
  show ?thesis
  proof (cases "e = 0")
    case True
    with le' ge show ?thesis unfolding d by (simp add: scale2_def)
  next
    case False
    with u(1) have "scale2 e = 1 / 2 ^ nat (- e)" by (simp add: scale2_def)
    with le' ge show ?thesis unfolding d by (simp add: divide_le_eq)
  qed
qed

text \<open>
  Claim C5. For a well-formed hex string (\<open>#\<close> and six hexadecimal digits),
  \<open>hexToItermColorDict\<close> returns, for each of the three bytes, the double nearest to the
  byte divided by 255, with alpha 1 and the colour space \<open>sRGB\<close>, and \<open>hexToRGB\<close> prints
  the three bytes times 257; every one of the three doubles lies between 0 and 1 and every
  16-bit channel is at most 65535. Both are functions of the input string alone, as every
  definition of the model is.
\<close>

theorem hex_codec_ranges:
  assumes "well_formed_hex hex"
  shows "hexToItermColorDict hex =
           \<lparr>Red_Component = Some (to_double (of_nat (hex_byte 0 hex) / 255)),
            Green_Component = Some (to_double (of_nat (hex_byte 1 hex) / 255)),
            Blue_Component = Some (to_double (of_nat (hex_byte 2 hex) / 255)),
            Alpha_Component = Some 1, Color_Space = ''sRGB''\<rparr>
         \<and> hexToRGB hex =
           ''{'' @ decimal (hex_byte 0 hex * 257) @ '', '' @ decimal (hex_byte 1 hex * 257)
             @ '', '' @ decimal (hex_byte 2 hex * 257) @ ''}''
         \<and> list_all (\<lambda>k. 0 \<le> to_double (of_nat (hex_byte k hex) / 255)
               \<and> to_double (of_nat (hex_byte k hex) / 255) \<le> 1
               \<and> hex_byte k hex * 257 \<le> 65535) [0, 1, 2]"
proof -
  from assms obtain a b c d e f where hex: "hex = [CHR ''#'', a, b, c, d, e, f]"
    and dg: "is_hex_digit a" "is_hex_digit b" "is_hex_digit c"
      "is_hex_digit d" "is_hex_digit e" "is_hex_digit f"
    by (rule well_formed_hex_shape)
  have sl: "slice 1 3 hex = [a, b]" "slice 3 5 hex = [c, d]" "slice 5 7 hex = [e, f]"
    by (simp_all add: hex slice_def)
  have hb: "int (hex_byte 0 hex) = int (16 * digit_or_zero a + digit_or_zero b)"
    "int (hex_byte 1 hex) = int (16 * digit_or_zero c + digit_or_zero d)"
    "int (hex_byte 2 hex) = int (16 * digit_or_zero e + digit_or_zero f)"
    by (simp_all add: hex hex_byte_def)
  have r: "parseInt16 (slice 1 3 hex) = Some (int (hex_byte 0 hex))"
    unfolding sl hb by (rule parseInt16_two_digits [OF dg(1) dg(2)])
  have g: "parseInt16 (slice 3 5 hex) = Some (int (hex_byte 1 hex))"
    unfolding sl hb by (rule parseInt16_two_digits [OF dg(3) dg(4)])
  have b: "parseInt16 (slice 5 7 hex) = Some (int (hex_byte 2 hex))"
    unfolding sl hb by (rule parseInt16_two_digits [OF dg(5) dg(6)])
  have iterm: "hexToItermColorDict hex =
           \<lparr>Red_Component = Some (to_double (of_nat (hex_byte 0 hex) / 255)),
            Green_Component = Some (to_double (of_nat (hex_byte 1 hex) / 255)),
            Blue_Component = Some (to_double (of_nat (hex_byte 2 hex) / 255)),
            Alpha_Component = Some 1, Color_Space = ''sRGB''\<rparr>"
    unfolding hexToItermColorDict_def r g b by (simp add: channel_fraction_def)
  have ntx: "number_text (channel_16bit (Some (int n))) = decimal (n * 257)" for n
    by (simp add: number_text_def channel_16bit_def nat_mult_distrib)
  have rgb: "hexToRGB hex =
           ''{'' @ decimal (hex_byte 0 hex * 257) @ '', '' @ decimal (hex_byte 1 hex * 257)
             @ '', '' @ decimal (hex_byte 2 hex * 257) @ ''}''"
    unfolding hexToRGB_def r g b by (simp add: ntx)
  have rng: "0 \<le> to_double (of_nat (hex_byte k hex) / 255)
      \<and> to_double (of_nat (hex_byte k hex) / 255) \<le> 1 \<and> hex_byte k hex * 257 \<le> 65535" for k
  proof -
    have "(0::rat) \<le> of_nat (hex_byte k hex) / 255" "(of_nat (hex_byte k hex) / 255 :: rat) \<le> 1"
      using hex_byte_le [of k hex] by simp_all
    then have "0 \<le> to_double (of_nat (hex_byte k hex) / 255)
      \<and> to_double (of_nat (hex_byte k hex) / 255) \<le> 1"
      by (rule to_double_unit)
    with hex_byte_le [of k hex] show ?thesis by simp
  qed
  from iterm rgb rng show ?thesis by simp
qed

text \<open>
  On \<open>#1e1e2e\<close> the red and green components are the double nearest to \<open>30 / 255\<close>, which
  is \<open>4238682002231055 / 2^55\<close>, and the blue component is the double nearest to
  \<open>46 / 255\<close>, which is \<open>6499312403420951 / 2^55\<close>.
\<close>

theorem hex_codec_ranges_witness:
  "well_formed_hex ''#1e1e2e''
   \<and> hexToItermColorDict ''#1e1e2e'' =
       \<lparr>Red_Component = Some (4238682002231055 / 2 ^ 55),
        Green_Component = Some (4238682002231055 / 2 ^ 55),
        Blue_Component = Some (6499312403420951 / 2 ^ 55),
        Alpha_Component = Some 1, Color_Space = ''sRGB''\<rparr>
   \<and> hexToRGB ''#1e1e2e'' = ''{7710, 7710, 11822}''"
proof -
  have w: "well_formed_hex ''#1e1e2e''"
    by (simp add: well_formed_hex_def is_hex_digit_def hex_digit_value_def)
  have b: "hex_byte 0 ''#1e1e2e'' = 30" "hex_byte 1 ''#1e1e2e'' = 30" "hex_byte 2 ''#1e1e2e'' = 46"
    by (simp_all add: hex_byte_def digit_or_zero_def hex_digit_value_def)
  have d: "decimal 7710 = ''7710''" "decimal 11822 = ''11822''"
    by (simp_all add: decimal.simps)
  have q: "to_double (of_nat 30 / 255) = 4238682002231055 / 2 ^ 55"
    "to_double (of_nat 46 / 255) = 6499312403420951 / 2 ^ 55"
    by code_simp+
  from hex_codec_ranges [OF w] w show ?thesis
    unfolding b q by (simp add: d)
qed

section \<open>The JSONC stripping step\<close>

text \<open>A line comment outside a string is dropped up to the next line feed, which is
  emitted.\<close>

lemma line_comment_discarded:
  assumes "nl \<notin> set body"
  shows "strip_comments_from False False (''//'' @ body @ nl # rest)
         = nl # strip_comments_from False False rest"
proof -
  have d: "dropWhile (\<lambda>x. x \<noteq> nl) (body @ nl # rest) = nl # rest"
    using assms by (induction body) auto
  have "strip_comments_from False False (''//'' @ body @ nl # rest)
        = strip_comments_from False False (nl # rest)"
    by (simp add: next_is_def dq_def backslash_def nl_def d [unfolded nl_def])
  then show ?thesis
    by (simp add: next_is_def dq_def backslash_def nl_def)
qed

text \<open>A block comment with no closer is dropped up to its last character, which is
  emitted.\<close>

lemma skip_block_comment_unterminated:
  "\<not> js_includes body ''*/'' \<Longrightarrow> body \<noteq> [] \<Longrightarrow> skip_block_comment body = [last body]"
proof (induction body rule: skip_block_comment.induct)
  case (1 a b cs)
  then have "\<not> (a = CHR ''*'' \<and> b = CHR ''/'')" and "\<not> js_includes (b # cs) ''*/''"
    by auto
  with "1.IH" show ?case by auto
qed simp_all

lemma unterminated_block_comment:
  assumes "\<not> js_includes body ''*/''" and "body \<noteq> []"
  shows "strip_comments_from False False (''/*'' @ body) = [last body]"
proof -
  have "strip_comments_from False False (''/*'' @ body)
        = strip_comments_from False False (skip_block_comment body)"
    by (simp add: next_is_def dq_def backslash_def)
  also have "\<dots> = strip_comments_from False False [last body]"
    by (simp only: skip_block_comment_unterminated [OF assms])
  also have "\<dots> = [last body]"
    by (simp add: next_is_def)
  finally show ?thesis .
qed

text \<open>
  Claim C4. The block comment of \<open>{"a":1}/* tail\<close> has no closer, and the scanner does not
  discard it to the end: the inner loop stops one character before the end, and the last
  character of the document is emitted.
\<close>

theorem unterminated_block_comment_keeps_last:
  \<open>strip_comments ''{"a":1}/* tail'' = ''{"a":1}l''\<close>
  by (simp add: strip_comments_def next_is_def dq_def backslash_def)

text \<open>
  Claim C1. \<open>{"k":",}"}\<close> is valid JSON. The comment scanner returns it unchanged, and the
  comma cleanup, which does not know of strings, removes the comma inside the string literal.
  In \<open>{"k":"/*,]*/"}\<close> the block comment sequence inside the string literal loses its comma
  the same way.
\<close>

theorem jsonc_strip_alters_string_literal:
  \<open>strip_comments ''{"k":",}"}'' = ''{"k":",}"}''
   \<and> jsonc_strip ''{"k":",}"}'' = ''{"k":"}"}''
   \<and> jsonc_strip ''{"k":"/*,]*/"}'' = ''{"k":"/*]*/"}''\<close>
  by (simp add: jsonc_strip_def strip_comments_def next_is_def dq_def backslash_def
      comma_match_def js_space_def closing_bracket_def)

section \<open>Theme lookup and the not-found result\<close>

lemma failed_eq [simp]: "(failed p e = failed p' e') = (p = p' \<and> e = e')"
  by (auto simp: failed_def)

lemma succeeded_not_failed [simp]: "succeeded p i \<noteq> failed p' e"
  by (simp add: succeeded_def failed_def)

lemma getThemeColors_None: "(getThemeColors db themeId = None) = (select_colors db themeId = [])"
  by (simp add: getThemeColors_def Let_def)

lemma iterm2_install_found: "iterm2_install w themeId themeName colors \<noteq> Inr (theme_not_found, w')"
  by (auto simp: iterm2_install_def ensure_directory_def execAsync_def theme_not_found_def Let_def
      split: sum.splits option.splits prod.splits)

lemma terminal_app_install_found: "terminal_app_install w themeName colors \<noteq> Inr (theme_not_found, w')"
  by (auto simp: terminal_app_install_def execAsync_def theme_not_found_def Let_def
      split: sum.splits option.splits prod.splits)

lemma terminal_default_install_found:
  "terminal_default_install w themeName colors \<noteq> Inr (theme_not_found, w')"
  by (auto simp: terminal_default_install_def execAsync_def theme_not_found_def Let_def
      split: sum.splits option.splits prod.splits)

lemma windows_terminal_install_found:
  "windows_terminal_install w themeName colors \<noteq> Inr (theme_not_found, w')"
  by (auto simp: windows_terminal_install_def theme_not_found_def Let_def
      split: sum.splits option.splits prod.splits)

lemma alacritty_install_found: "alacritty_install w themeName colors \<noteq> Inr (theme_not_found, w')"
  by (auto simp: alacritty_install_def theme_not_found_def Let_def
      split: sum.splits option.splits prod.splits if_splits)

lemma kitty_install_found: "kitty_install w themeName colors \<noteq> Inr (theme_not_found, w')"
  by (auto simp: kitty_install_def theme_not_found_def Let_def
      split: sum.splits option.splits prod.splits if_splits)

lemma foldl_new_Map:
  "foldl (\<lambda>m entry. m(fst entry \<mapsto> snd entry)) m0 entries = m0 ++ map_of (rev entries)"
  by (induction entries arbitrary: m0) (auto simp: map_add_def fun_eq_iff split: option.splits)

lemma new_Map_eq: "new_Map entries = map_of (rev entries)"
  by (simp add: new_Map_def foldl_new_Map)

lemma get_or_absent: "key \<notin> fst ` set entries \<Longrightarrow> get_or (new_Map entries) key fallback = fallback"
proof -
  assume "key \<notin> fst ` set entries"
  then have "map_of (rev entries) key = None"
    by (simp add: map_of_eq_None_iff)
  then show ?thesis
    by (simp add: get_or_def new_Map_eq)
qed

lemma get_or_present:
  "map_of (rev entries) key = Some v \<Longrightarrow> v \<noteq> [] \<Longrightarrow> get_or (new_Map entries) key fallback = v"
  by (simp add: get_or_def new_Map_eq)

lemma getThemeColors_fields:
  assumes "getThemeColors db themeId = Some c"
  shows "list_all (\<lambda>(key, field, fallback).
           field c = get_or (new_Map (select_colors db themeId)) key fallback) color_fields"
  using assms by (auto simp: getThemeColors_def Let_def color_fields_def split: if_splits)

text \<open>
  Claim C2. Each of the six installers returns the result \<open>{success: false, error: "Theme not
  found", path: ""}\<close> if and only if the theme has no colour row. When it has a row, the lookup
  returns a colour set in which a key with no row has its default and a key whose last row is
  a non-empty value has that value; and a theme with no row in \<open>themes\<close> is named
  \<open>Untitled\<close>.
\<close>

theorem theme_not_found_iff:
  "((\<exists>w'. installToIterm2 w db themeId = Inr (theme_not_found, w')) = (select_colors db themeId = []))
   \<and> ((\<exists>w'. installToTerminalApp w db themeId = Inr (theme_not_found, w')) = (select_colors db themeId = []))
   \<and> ((\<exists>w'. setTerminalDefault w db themeId = Inr (theme_not_found, w')) = (select_colors db themeId = []))
   \<and> ((\<exists>w'. installToWindowsTerminal w db themeId = Inr (theme_not_found, w')) = (select_colors db themeId = []))
   \<and> ((\<exists>w'. installToAlacritty w db themeId = Inr (theme_not_found, w')) = (select_colors db themeId = []))
   \<and> ((\<exists>w'. installToKitty w db themeId = Inr (theme_not_found, w')) = (select_colors db themeId = []))
   \<and> (select_colors db themeId \<noteq> [] \<longrightarrow>
        (\<exists>c. getThemeColors db themeId = Some c
          \<and> (\<forall>(key, field, fallback) \<in> set color_fields.
                (key \<notin> fst ` set (select_colors db themeId) \<longrightarrow> field c = fallback)
                \<and> (\<forall>v. map_of (rev (select_colors db themeId)) key = Some v \<and> v \<noteq> []
                      \<longrightarrow> field c = v))))
   \<and> (find (\<lambda>row. fst row = themeId) (themes db) = None \<longrightarrow> getThemeName db themeId = ''Untitled'')"
proof -
  have a: "(\<exists>w'. installToIterm2 w db themeId = Inr (theme_not_found, w')) = (select_colors db themeId = [])"
    using iterm2_install_found getThemeColors_None [of db themeId]
    by (auto simp: installToIterm2_def Let_def split: option.splits)
  have b: "(\<exists>w'. installToTerminalApp w db themeId = Inr (theme_not_found, w')) = (select_colors db themeId = [])"
    using terminal_app_install_found getThemeColors_None [of db themeId]
    by (auto simp: installToTerminalApp_def Let_def split: option.splits)
  have c: "(\<exists>w'. setTerminalDefault w db themeId = Inr (theme_not_found, w')) = (select_colors db themeId = [])"
    using terminal_default_install_found getThemeColors_None [of db themeId]
    by (auto simp: setTerminalDefault_def Let_def split: option.splits)
  have d: "(\<exists>w'. installToWindowsTerminal w db themeId = Inr (theme_not_found, w')) = (select_colors db themeId = [])"
    using windows_terminal_install_found getThemeColors_None [of db themeId]
    by (auto simp: installToWindowsTerminal_def Let_def split: option.splits)
  have e: "(\<exists>w'. installToAlacritty w db themeId = Inr (theme_not_found, w')) = (select_colors db themeId = [])"
    using alacritty_install_found getThemeColors_None [of db themeId]
    by (auto simp: installToAlacritty_def Let_def split: option.splits)
  have f: "(\<exists>w'. installToKitty w db themeId = Inr (theme_not_found, w')) = (select_colors db themeId = [])"
    using kitty_install_found getThemeColors_None [of db themeId]
    by (auto simp: installToKitty_def Let_def split: option.splits)
  have g: "\<exists>c. getThemeColors db themeId = Some c
          \<and> (\<forall>(key, field, fallback) \<in> set color_fields.
                (key \<notin> fst ` set (select_colors db themeId) \<longrightarrow> field c = fallback)
                \<and> (\<forall>v. map_of (rev (select_colors db themeId)) key = Some v \<and> v \<noteq> []
                      \<longrightarrow> field c = v))"
    if rows: "select_colors db themeId \<noteq> []"
  proof -
    from rows getThemeColors_None [of db themeId] obtain c where c: "getThemeColors db themeId = Some c"
      by auto
    from getThemeColors_fields [OF c]
    have "\<forall>(key, field, fallback) \<in> set color_fields.
            field c = get_or (new_Map (select_colors db themeId)) key fallback"
      by (simp add: list_all_iff)
    then have "\<forall>(key, field, fallback) \<in> set color_fields.
                (key \<notin> fst ` set (select_colors db themeId) \<longrightarrow> field c = fallback)
                \<and> (\<forall>v. map_of (rev (select_colors db themeId)) key = Some v \<and> v \<noteq> []
                      \<longrightarrow> field c = v)"
      by (auto simp: get_or_absent get_or_present)
    with c show ?thesis by blast
  qed
  have h: "find (\<lambda>row. fst row = themeId) (themes db) = None \<longrightarrow> getThemeName db themeId = ''Untitled''"
    by (simp add: getThemeName_def)
  from a b c d e f g h show ?thesis by blast
qed

theorem theme_not_found_iff_witness:
  "select_colors example_database ''nope'' = []
   \<and> (\<exists>w'. installToIterm2 example_world example_database ''nope'' = Inr (theme_not_found, w'))
   \<and> (\<exists>w'. installToKitty example_world example_database ''nope'' = Inr (theme_not_found, w'))
   \<and> select_colors example_database ''t1'' \<noteq> []
   \<and> (\<exists>c. getThemeColors example_database ''t1'' = Some c
         \<and> background c = ''#1e1e2e'' \<and> cursor c = ''#ffffff'')
   \<and> getThemeName example_database ''nope'' = ''Untitled''"
proof -
  have n: "select_colors example_database ''nope'' = []"
    by (simp add: select_colors_def example_database_def)
  have r: "select_colors example_database ''t1''
           = [(''background'', ''#1e1e2e''), (''foreground'', ''#cdd6f4'')]"
    by (simp add: select_colors_def example_database_def)
  have u: "find (\<lambda>row. fst row = ''nope'') (themes example_database) = None"
    by (simp add: example_database_def)
  note t = theme_not_found_iff [of example_world example_database "''nope''"]
  note s = theme_not_found_iff [of example_world example_database "''t1''"]
  from s r obtain c where c: "getThemeColors example_database ''t1'' = Some c"
    and f: "\<forall>(key, field, fallback) \<in> set color_fields.
                (key \<notin> fst ` set (select_colors example_database ''t1'') \<longrightarrow> field c = fallback)
                \<and> (\<forall>v. map_of (rev (select_colors example_database ''t1'')) key = Some v \<and> v \<noteq> []
                      \<longrightarrow> field c = v)"
    by auto
  from f have "background c = ''#1e1e2e''" and "cursor c = ''#ffffff''"
    unfolding r color_fields_def by simp_all
  with c n r t u show ?thesis by simp
qed

section \<open>Live-apply failure\<close>

lemma iterm2_install_written:
  assumes "fs_exists w (path_join w [app_home w, ''Library/Application Support/iTerm2/DynamicProfiles''])
           \<or> mkdir_fails w (path_join w [app_home w,
                 ''Library/Application Support/iTerm2/DynamicProfiles'']) = None"
    and "write_fails w (iterm_profilePath w themeName) = None"
  shows "\<exists>i w'. iterm2_install w themeId themeName colors =
           Inr (\<lparr>success = True, path = iterm_profilePath w themeName,
                 instructions = Some i, error = None\<rparr>, w')"
  using assms
  by (auto simp: iterm2_install_def iterm_profilePath_def ensure_directory_def mkdirSync_def
      writeFileSync_def execAsync_def succeeded_def Let_def split: option.splits)

lemma terminal_app_install_created:
  assumes "exec_fails w (osascript (createProfileScript (escape_double_quotes themeName) colors)) = None"
  shows "\<exists>i w'. terminal_app_install w themeName colors =
           Inr (\<lparr>success = True, path = '''', instructions = Some i, error = None\<rparr>, w')"
  using assms
  by (auto simp: terminal_app_install_def execAsync_def succeeded_def Let_def split: option.splits)

text \<open>
  Claim C3. When the profile file of \<open>installToIterm2\<close> is written (its directory exists or
  is created, and the write does not throw), and when the script of \<open>installToTerminalApp\<close>
  that creates the settings set runs, the installer returns \<open>success: true\<close> with no error
  and the same path whatever the live-apply command does: only the instructions depend on it.
\<close>

theorem live_apply_failure_is_success:
  assumes "getThemeColors db themeId = Some colors"
  shows "((fs_exists w (path_join w [app_home w, ''Library/Application Support/iTerm2/DynamicProfiles''])
           \<or> mkdir_fails w (path_join w [app_home w,
                 ''Library/Application Support/iTerm2/DynamicProfiles'']) = None)
          \<and> write_fails w (iterm_profilePath w (getThemeName db themeId)) = None
          \<longrightarrow> (\<exists>i w'. installToIterm2 w db themeId =
                 Inr (\<lparr>success = True, path = iterm_profilePath w (getThemeName db themeId),
                       instructions = Some i, error = None\<rparr>, w')))
       \<and> (exec_fails w (osascript (createProfileScript
               (escape_double_quotes (getThemeName db themeId)) colors)) = None
          \<longrightarrow> (\<exists>i w'. installToTerminalApp w db themeId =
                 Inr (\<lparr>success = True, path = '''', instructions = Some i, error = None\<rparr>, w')))"
  using assms iterm2_install_written [of w "getThemeName db themeId" themeId colors]
    terminal_app_install_created [of w "getThemeName db themeId" colors]
  by (simp add: installToIterm2_def installToTerminalApp_def Let_def)

lemma example_colors_found: "getThemeColors example_database ''t1'' = Some example_colors"
  by (simp add: getThemeColors_def select_colors_def example_database_def example_colors_def
      new_Map_def get_or_def Let_def)

lemma example_name: "getThemeName example_database ''t1'' = ''Mocha''"
  by (simp add: getThemeName_def example_database_def)

lemma create_succeeds:
  "exec_fails example_world_no_apply
     (osascript (createProfileScript (escape_double_quotes ''Mocha'') example_colors)) = None"
  by (simp add: example_world_no_apply_def example_world_def osascript_def createProfileScript_def
      escape_double_quotes_def escape_single_quotes_def dq_def nl_def)

lemma apply_fails:
  "exec_fails example_world_no_apply (osascript (applyScript (escape_double_quotes ''Mocha'')))
   = Some ''execution error''"
  by (simp add: example_world_no_apply_def example_world_def osascript_def applyScript_def
      escape_double_quotes_def escape_single_quotes_def dq_def nl_def)

lemma iterm_script_fails:
  "exec_fails example_world_no_apply (osascript (iterm_appleScript ''Mocha'')) = Some ''execution error''"
  by (simp add: example_world_no_apply_def example_world_def osascript_def iterm_appleScript_def
      escape_single_quotes_def dq_def nl_def)

theorem live_apply_failure_is_success_witness:
  \<open>exec_fails example_world_no_apply (osascript (iterm_appleScript ''Mocha'')) \<noteq> None
   \<and> (\<exists>i w'. installToIterm2 example_world_no_apply example_database ''t1'' =
          Inr (\<lparr>success = True,
                path = ''/home/user/Library/Application Support/iTerm2/DynamicProfiles/mocha.json'',
                instructions = Some i, error = None\<rparr>, w'))
   \<and> exec_fails example_world_no_apply (osascript (applyScript (escape_double_quotes ''Mocha''))) \<noteq> None
   \<and> (\<exists>i w'. installToTerminalApp example_world_no_apply example_database ''t1'' =
          Inr (\<lparr>success = True, path = '''', instructions = Some i, error = None\<rparr>, w'))\<close>
proof -
  have p: "iterm_profilePath example_world_no_apply ''Mocha''
           = ''/home/user/Library/Application Support/iTerm2/DynamicProfiles/mocha.json''"
    by (simp add: iterm_profilePath_def example_world_no_apply_def example_world_def
        example_join_def slugName_def toLowerCase_def toLowerCase_char_def upper_chars_def
        lower_chars_def lower_alnum_def)
  have m: "mkdir_fails example_world_no_apply d = None" for d
    by (simp add: example_world_no_apply_def example_world_def)
  have wr: "write_fails example_world_no_apply f = None" for f
    by (simp add: example_world_no_apply_def example_world_def)
  from live_apply_failure_is_success [OF example_colors_found, of example_world_no_apply]
  show ?thesis
    unfolding example_name p
    using m wr create_succeeds apply_fails iterm_script_fails by simp
qed

section \<open>What the Terminal.app scripts set and read\<close>

lemma lines_of_one_line: "one_line l \<Longrightarrow> lines_of l = [l]"
  by (induction l) (simp_all add: one_line_def)

lemma lines_of_append_nl: "one_line l \<Longrightarrow> lines_of (l @ nl # rest) = l # lines_of rest"
  by (induction l) (simp_all add: one_line_def js_line_terminator_def nl_def)

lemma lines_of_join_lines:
  "ls \<noteq> [] \<Longrightarrow> list_all one_line ls \<Longrightarrow> lines_of (join_lines ls) = ls"
proof (induction ls rule: join_lines.induct)
  case (3 l k ls)
  then show ?case by (simp add: lines_of_append_nl)
qed (simp_all add: lines_of_one_line)

lemma one_line_append: "one_line (a @ b) = (one_line a \<and> one_line b)"
  by (simp add: one_line_def)

lemma one_line_decimal: "one_line (decimal n)"
proof (induction n rule: decimal.induct)
  case (1 n)
  have d: "one_line [''0123456789'' ! k]" if "k < 10" for k
  proof -
    from that have "k \<in> {0, 1, 2, 3, 4, 5, 6, 7, 8, 9}" by auto
    then show ?thesis by (auto simp: one_line_def js_line_terminator_def)
  qed
  show ?case
  proof (cases "n < 10")
    case True
    then show ?thesis by (simp add: decimal.simps [of n] d)
  next
    case False
    with 1 have "one_line (decimal (n div 10))" by simp
    moreover have "one_line [''0123456789'' ! (n mod 10)]" by (rule d) simp
    ultimately show ?thesis using False
      by (simp add: decimal.simps [of n] one_line_append)
  qed
qed

lemma one_line_number_text: "one_line (number_text n)"
proof (cases n)
  case None
  then show ?thesis by (simp add: number_text_def one_line_def js_line_terminator_def)
next
  case (Some i)
  have "one_line (CHR ''-'' # decimal k)" for k
    using one_line_decimal [of k] by (simp add: one_line_def js_line_terminator_def)
  with Some show ?thesis by (simp add: number_text_def one_line_decimal)
qed

lemma one_line_hexToRGB: "one_line (hexToRGB hex)"
proof -
  have l: "one_line ''{''" "one_line '', ''" "one_line ''}''"
    by (simp_all add: one_line_def js_line_terminator_def)
  show ?thesis
    unfolding hexToRGB_def Let_def
    by (simp only: one_line_append l one_line_number_text simp_thms)
qed

lemma one_line_escape_double_quotes: "one_line s \<Longrightarrow> one_line (escape_double_quotes s)"
  by (induction s)
    (simp_all add: one_line_def escape_double_quotes_def js_line_terminator_def backslash_def dq_def)

lemma profile_color_commands:
  assumes "one_line escapedName"
  shows "filter color_command (lines_of (createProfileScript escapedName colors)) =
      [''      set background color of targetSettings to '' @ hexToRGB (background colors),
       ''      set normal text color of targetSettings to '' @ hexToRGB (foreground colors),
       ''      set cursor color of targetSettings to '' @ hexToRGB (cursor colors)]"
proof -
  note ol = assms one_line_hexToRGB [of "background colors"]
    one_line_hexToRGB [of "foreground colors"] one_line_hexToRGB [of "cursor colors"]
  show ?thesis
    unfolding createProfileScript_def
    apply (subst lines_of_join_lines)
      apply simp
    using ol apply (simp add: one_line_def js_line_terminator_def)
    apply (simp add: color_command_def Let_def dq_def)
    done
qed

lemma apply_color_commands:
  assumes "one_line escapedName"
  shows "filter color_command (lines_of (applyScript escapedName)) = []"
  unfolding applyScript_def
  apply (subst lines_of_join_lines)
    apply simp
  using assms apply (simp add: one_line_def js_line_terminator_def)
  apply (simp add: color_command_def Let_def dq_def)
  done

lemma default_color_commands:
  assumes "one_line escapedName"
  shows "filter color_command (lines_of (terminal_default_script escapedName colors)) =
      [''        set background color to '' @ hexToRGB (background colors),
       ''        set normal text color to '' @ hexToRGB (foreground colors),
       ''        set cursor color to '' @ hexToRGB (cursor colors)]"
proof -
  note ol = assms one_line_hexToRGB [of "background colors"]
    one_line_hexToRGB [of "foreground colors"] one_line_hexToRGB [of "cursor colors"]
  show ?thesis
    unfolding terminal_default_script_def
    apply (subst lines_of_join_lines)
      apply simp
    using ol apply (simp add: one_line_def js_line_terminator_def)
    apply (simp add: color_command_def Let_def dq_def)
    done
qed

lemma terminal_app_install_runs:
  "\<exists>r w'. terminal_app_install w themeName colors = Inr (r, w')
     \<and> executed w' = executed w
         @ osascript (createProfileScript (escape_double_quotes themeName) colors)
         # (if exec_fails w (osascript (createProfileScript (escape_double_quotes themeName) colors)) = None
            then [osascript (applyScript (escape_double_quotes themeName))] else [])"
  by (auto simp: terminal_app_install_def execAsync_def Let_def split: option.splits)

lemma terminal_default_install_runs:
  "\<exists>r w'. terminal_default_install w themeName colors = Inr (r, w')
     \<and> executed w' = executed w
         @ [osascript (terminal_default_script (escape_double_quotes themeName) colors)]"
  by (auto simp: terminal_default_install_def execAsync_def Let_def split: option.splits)

lemma lines_of_nonempty: "lines_of s \<noteq> []"
  by (induction s) (simp_all split: list.splits)

lemma lines_of_append: "lines_of (a @ nl # rest) = lines_of a @ lines_of rest"
proof (induction a)
  case Nil
  show ?case by (simp add: js_line_terminator_def nl_def)
next
  case (Cons c a)
  obtain l ls where l: "lines_of a = l # ls"
    using lines_of_nonempty [of a] by (cases "lines_of a") auto
  with Cons show ?case by simp
qed

lemma lines_of_join: "ls \<noteq> [] \<Longrightarrow> lines_of (join_lines ls) = concat (map lines_of ls)"
proof (induction ls rule: join_lines.induct)
  case (3 l k ls)
  then show ?case by (simp add: lines_of_append)
qed simp_all

lemma lines_of_each: "list_all one_line ms \<Longrightarrow> concat (map lines_of ms) = ms"
  by (induction ms) (simp_all add: lines_of_one_line)

lemma lines_of_join_middle:
  assumes "list_all one_line ms" and "ms \<noteq> []"
  shows "\<exists>pre post. lines_of (join_lines (as @ ms @ bs)) = pre @ ms @ post"
proof -
  from assms(2) have "as @ ms @ bs \<noteq> []" by simp
  then have "lines_of (join_lines (as @ ms @ bs)) = concat (map lines_of (as @ ms @ bs))"
    by (rule lines_of_join)
  also have "\<dots> = concat (map lines_of as) @ ms @ concat (map lines_of bs)"
    by (simp add: lines_of_each [OF assms(1)])
  finally show ?thesis by blast
qed

lemma one_line_color_command: "one_line lit \<Longrightarrow> one_line (lit @ hexToRGB hex)"
  by (simp add: one_line_append one_line_hexToRGB)

lemma profile_sets_three:
  "\<exists>pre post. lines_of (createProfileScript escapedName colors) = pre @
      [''      set background color of targetSettings to '' @ hexToRGB (background colors),
       ''      set normal text color of targetSettings to '' @ hexToRGB (foreground colors),
       ''      set cursor color of targetSettings to '' @ hexToRGB (cursor colors)] @ post"
proof -
  let ?ms = "[''      set background color of targetSettings to '' @ hexToRGB (background colors),
       ''      set normal text color of targetSettings to '' @ hexToRGB (foreground colors),
       ''      set cursor color of targetSettings to '' @ hexToRGB (cursor colors)]"
  have o: "one_line ''      set background color of targetSettings to ''"
    "one_line ''      set normal text color of targetSettings to ''"
    "one_line ''      set cursor color of targetSettings to ''"
    by (simp_all add: one_line_def js_line_terminator_def)
  have m: "list_all one_line ?ms"
    using o [THEN one_line_color_command] by (simp only: list.pred_inject simp_thms)
  obtain as bs where "createProfileScript escapedName colors = join_lines (as @ ?ms @ bs)"
  proof
    show \<open>createProfileScript escapedName colors = join_lines
       (['''',
        ''    tell application "Terminal"'',
        ''      if not (exists settings set "'' @ escapedName @ ''") then'',
        ''        make new settings set with properties {name:"'' @ escapedName @ ''"}'',
        ''      end if'',
        '''',
        ''      set targetSettings to settings set "'' @ escapedName @ ''"''] @ ?ms @
        ['''',
        ''      -- Set as default and startup profile'',
        ''      set default settings to targetSettings'',
        ''      set startup settings to targetSettings'',
        ''    end tell'',
        ''  ''])\<close>
      unfolding createProfileScript_def by (simp only: append_Cons append_Nil)
  qed
  with lines_of_join_middle [OF m, of as bs] show ?thesis by simp
qed

lemma default_sets_three:
  "\<exists>pre post. lines_of (terminal_default_script escapedName colors) = pre @
      [''        set background color to '' @ hexToRGB (background colors),
       ''        set normal text color to '' @ hexToRGB (foreground colors),
       ''        set cursor color to '' @ hexToRGB (cursor colors)] @ post"
proof -
  let ?ms = "[''        set background color to '' @ hexToRGB (background colors),
       ''        set normal text color to '' @ hexToRGB (foreground colors),
       ''        set cursor color to '' @ hexToRGB (cursor colors)]"
  have o: "one_line ''        set background color to ''"
    "one_line ''        set normal text color to ''"
    "one_line ''        set cursor color to ''"
    by (simp_all add: one_line_def js_line_terminator_def)
  have m: "list_all one_line ?ms"
    using o [THEN one_line_color_command] by (simp only: list.pred_inject simp_thms)
  obtain as bs where "terminal_default_script escapedName colors = join_lines (as @ ?ms @ bs)"
  proof
    show \<open>terminal_default_script escapedName colors = join_lines
       (['''',
        ''    tell application "Terminal"'',
        ''      -- Create or update the profile (settings set)'',
        ''      if not (exists settings set "'' @ escapedName @ ''") then'',
        ''        set newSettings to make new settings set with properties {name:"'' @ escapedName @ ''"}'',
        ''      end if'',
        '''',
        ''      tell settings set "'' @ escapedName @ ''"''] @ ?ms @
        [''      end tell'',
        '''',
        ''      -- Set as default profile'',
        ''      set default settings to settings set "'' @ escapedName @ ''"'',
        '''',
        ''      -- Also set startup settings (for new windows)'',
        ''      set startup settings to settings set "'' @ escapedName @ ''"'',
        ''    end tell'',
        ''  ''])\<close>
      unfolding terminal_default_script_def by (simp only: append_Cons append_Nil)
  qed
  with lines_of_join_middle [OF m, of as bs] show ?thesis by simp
qed

text \<open>
  Claim C10. For every theme, the script that \<open>installToTerminalApp\<close> runs first has
  the three lines that set the background colour from the background of the theme, the
  normal text colour from its foreground and the cursor colour from its cursor, each as
  \<open>hexToRGB\<close> prints it, and so has the script of \<open>setTerminalDefault\<close>. Both installers run
  these scripts, and return. The scripts, and with them everything the two installers run
  and return, do not depend on the cursor text colour, the selection colours or the ANSI
  palette of the theme. When the name of the theme is one line, so that no text of the name
  stands as a line of its own, these three are the only lines of either script that set a
  colour property, and the script that applies the settings to the open windows has none.
\<close>

theorem terminal_scripts_use_three_colors:
  "(\<exists>pre post. lines_of (createProfileScript (escape_double_quotes themeName) colors) = pre @
        [''      set background color of targetSettings to '' @ hexToRGB (background colors),
         ''      set normal text color of targetSettings to '' @ hexToRGB (foreground colors),
         ''      set cursor color of targetSettings to '' @ hexToRGB (cursor colors)] @ post)
   \<and> (\<exists>pre post. lines_of (terminal_default_script (escape_double_quotes themeName) colors) = pre @
        [''        set background color to '' @ hexToRGB (background colors),
         ''        set normal text color to '' @ hexToRGB (foreground colors),
         ''        set cursor color to '' @ hexToRGB (cursor colors)] @ post)
   \<and> (\<exists>r w'. terminal_app_install w themeName colors = Inr (r, w')
        \<and> executed w' = executed w
            @ osascript (createProfileScript (escape_double_quotes themeName) colors)
            # (if exec_fails w
                    (osascript (createProfileScript (escape_double_quotes themeName) colors)) = None
               then [osascript (applyScript (escape_double_quotes themeName))] else []))
   \<and> (\<exists>r w'. terminal_default_install w themeName colors = Inr (r, w')
        \<and> executed w' = executed w
            @ [osascript (terminal_default_script (escape_double_quotes themeName) colors)])
   \<and> createProfileScript escapedName
        (colors\<lparr>cursorText := a, selection := b, selectionText := c, ansi := d\<rparr>)
        = createProfileScript escapedName colors
   \<and> terminal_default_script escapedName
        (colors\<lparr>cursorText := a, selection := b, selectionText := c, ansi := d\<rparr>)
        = terminal_default_script escapedName colors
   \<and> terminal_app_install w themeName
        (colors\<lparr>cursorText := a, selection := b, selectionText := c, ansi := d\<rparr>)
        = terminal_app_install w themeName colors
   \<and> terminal_default_install w themeName
        (colors\<lparr>cursorText := a, selection := b, selectionText := c, ansi := d\<rparr>)
        = terminal_default_install w themeName colors
   \<and> (one_line themeName \<longrightarrow>
        filter color_command
           (lines_of (createProfileScript (escape_double_quotes themeName) colors)) =
           [''      set background color of targetSettings to '' @ hexToRGB (background colors),
            ''      set normal text color of targetSettings to '' @ hexToRGB (foreground colors),
            ''      set cursor color of targetSettings to '' @ hexToRGB (cursor colors)]
        \<and> filter color_command (lines_of (applyScript (escape_double_quotes themeName))) = []
        \<and> filter color_command
           (lines_of (terminal_default_script (escape_double_quotes themeName) colors)) =
           [''        set background color to '' @ hexToRGB (background colors),
            ''        set normal text color to '' @ hexToRGB (foreground colors),
            ''        set cursor color to '' @ hexToRGB (cursor colors)])"
proof -
  have indep: "createProfileScript escapedName
        (colors\<lparr>cursorText := a, selection := b, selectionText := c, ansi := d\<rparr>)
        = createProfileScript escapedName colors"
    "terminal_default_script escapedName
        (colors\<lparr>cursorText := a, selection := b, selectionText := c, ansi := d\<rparr>)
        = terminal_default_script escapedName colors"
    "terminal_app_install w themeName
        (colors\<lparr>cursorText := a, selection := b, selectionText := c, ansi := d\<rparr>)
        = terminal_app_install w themeName colors"
    "terminal_default_install w themeName
        (colors\<lparr>cursorText := a, selection := b, selectionText := c, ansi := d\<rparr>)
        = terminal_default_install w themeName colors"
    by (simp_all add: createProfileScript_def terminal_default_script_def
        terminal_app_install_def terminal_default_install_def)
  have only: "one_line themeName \<longrightarrow>
        filter color_command
           (lines_of (createProfileScript (escape_double_quotes themeName) colors)) =
           [''      set background color of targetSettings to '' @ hexToRGB (background colors),
            ''      set normal text color of targetSettings to '' @ hexToRGB (foreground colors),
            ''      set cursor color of targetSettings to '' @ hexToRGB (cursor colors)]
        \<and> filter color_command (lines_of (applyScript (escape_double_quotes themeName))) = []
        \<and> filter color_command
           (lines_of (terminal_default_script (escape_double_quotes themeName) colors)) =
           [''        set background color to '' @ hexToRGB (background colors),
            ''        set normal text color to '' @ hexToRGB (foreground colors),
            ''        set cursor color to '' @ hexToRGB (cursor colors)]"
  proof (rule impI)
    assume "one_line themeName"
    then have e: "one_line (escape_double_quotes themeName)"
      by (rule one_line_escape_double_quotes)
    from profile_color_commands [OF e] apply_color_commands [OF e] default_color_commands [OF e]
    show "filter color_command
           (lines_of (createProfileScript (escape_double_quotes themeName) colors)) =
           [''      set background color of targetSettings to '' @ hexToRGB (background colors),
            ''      set normal text color of targetSettings to '' @ hexToRGB (foreground colors),
            ''      set cursor color of targetSettings to '' @ hexToRGB (cursor colors)]
        \<and> filter color_command (lines_of (applyScript (escape_double_quotes themeName))) = []
        \<and> filter color_command
           (lines_of (terminal_default_script (escape_double_quotes themeName) colors)) =
           [''        set background color to '' @ hexToRGB (background colors),
            ''        set normal text color to '' @ hexToRGB (foreground colors),
            ''        set cursor color to '' @ hexToRGB (cursor colors)]"
      by (intro conjI)
  qed
  from profile_sets_three [of "escape_double_quotes themeName" colors]
    default_sets_three [of "escape_double_quotes themeName" colors]
    terminal_app_install_runs [of w themeName colors]
    terminal_default_install_runs [of w themeName colors] indep only
  show ?thesis by (intro conjI)
qed

text \<open>The theme Mocha of the example: its three colours as 16-bit channels.\<close>

theorem terminal_scripts_use_three_colors_witness:
  "one_line ''Mocha''
   \<and> filter color_command (lines_of (createProfileScript ''Mocha'' example_colors)) =
       [''      set background color of targetSettings to {7710, 7710, 11822}'',
        ''      set normal text color of targetSettings to {52685, 54998, 62708}'',
        ''      set cursor color of targetSettings to {65535, 65535, 65535}'']
   \<and> filter color_command (lines_of (terminal_default_script ''Mocha'' example_colors)) =
       [''        set background color to {7710, 7710, 11822}'',
        ''        set normal text color to {52685, 54998, 62708}'',
        ''        set cursor color to {65535, 65535, 65535}'']
   \<and> (\<exists>r w'. terminal_app_install example_world ''Mocha'' example_colors = Inr (r, w')
        \<and> executed w' = [osascript (createProfileScript ''Mocha'' example_colors),
                          osascript (applyScript ''Mocha'')])"
proof -
  have o: "one_line ''Mocha''"
    by (simp add: one_line_def js_line_terminator_def)
  have n: "escape_double_quotes ''Mocha'' = ''Mocha''"
    by (simp add: escape_double_quotes_def dq_def)
  have d: "decimal 7710 = ''7710''" "decimal 11822 = ''11822''" "decimal 52685 = ''52685''"
    "decimal 54998 = ''54998''" "decimal 62708 = ''62708''" "decimal 65535 = ''65535''"
    by (simp_all add: decimal.simps)
  have h: "hexToRGB (background example_colors) = ''{7710, 7710, 11822}''"
    "hexToRGB (foreground example_colors) = ''{52685, 54998, 62708}''"
    "hexToRGB (cursor example_colors) = ''{65535, 65535, 65535}''"
    by (simp_all add: example_colors_def hexToRGB_def parseInt16_def slice_def js_space_def
        is_hex_digit_def digit_or_zero_def hex_digit_value_def channel_16bit_def number_text_def
        Let_def d)
  have x: "executed example_world = []" "exec_fails example_world command = None" for command
    by (simp_all add: example_world_def)
  from terminal_scripts_use_three_colors
    [where themeName = "''Mocha''" and colors = example_colors and w = example_world] o
  show ?thesis
    unfolding n h x by simp
qed

section \<open>The Alacritty example\<close>

lemma ensure_directory_fields:
  "ensure_directory w dir = Inr w1 \<Longrightarrow>
     write_fails w1 = write_fails w \<and> exec_fails w1 = exec_fails w \<and> executed w1 = executed w
     \<and> fs_read w1 = fs_read w"
  by (auto simp: ensure_directory_def mkdirSync_def split: if_splits option.splits)

lemma tomlContent_begins:
  \<open>\<exists>post. tomlContent themeName colors =
     join_lines [''# ShellShade Theme: '' @ themeName, ''# Generated by ShellShade'', '''',
       ''[colors.primary]'', ''background = "'' @ background colors @ ''"'',
       ''foreground = "'' @ foreground colors @ ''"'', ''''] @ post\<close>
  by (simp add: tomlContent_def)

text \<open>
  Claim C8. On Linux with \<open>XDG_CONFIG_HOME\<close> unset, for a theme whose background is
  \<open>#1e1e2e\<close> and whose foreground is \<open>#cdd6f4\<close>, when the directory step, the read of an
  existing file and the write succeed, \<open>installToAlacritty\<close> writes
  \<open>~/.config/alacritty/alacritty.toml\<close>; its content holds the two comment lines naming the
  theme, an empty line, \<open>[colors.primary]\<close>, the background line and the foreground line, in
  this order, and begins with them when the file did not exist.
\<close>

theorem alacritty_linux_example:
  assumes "process_platform w = linux"
    and "process_env w ''XDG_CONFIG_HOME'' = None"
    and "getThemeColors db themeId = Some colors"
    and "background colors = ''#1e1e2e''"
    and "foreground colors = ''#cdd6f4''"
    and "configPath = path_join w [path_join w [os_homedir w, ''.config''], ''alacritty'', ''alacritty.toml'']"
    and "ensure_directory w (path_dirname w configPath) = Inr w1"
    and "fs_exists w1 configPath \<longrightarrow> (\<exists>old. fs_read w1 configPath = Inr old)"
    and "write_fails w configPath = None"
  shows \<open>\<exists>i w' pre post.
     installToAlacritty w db themeId =
       Inr (\<lparr>success = True, path = configPath, instructions = Some i, error = None\<rparr>, w')
     \<and> fs_read w' configPath =
         Inr (pre @ join_lines [''# ShellShade Theme: '' @ getThemeName db themeId,
                ''# Generated by ShellShade'', '''', ''[colors.primary]'',
                ''background = "#1e1e2e"'', ''foreground = "#cdd6f4"'', ''''] @ post)
     \<and> (\<not> fs_exists w1 configPath \<longrightarrow> pre = [])\<close>
proof -
  let ?name = "getThemeName db themeId"
  from assms(1,2,6) have cp: "alacritty_configPath w = configPath"
    by (simp add: alacritty_configPath_def env_or_def)
  from ensure_directory_fields [OF assms(7)] assms(9)
  have wf: "write_fails w1 configPath = None" by simp
  obtain post where t: \<open>tomlContent ?name colors =
     join_lines [''# ShellShade Theme: '' @ ?name, ''# Generated by ShellShade'', '''',
       ''[colors.primary]'', ''background = "#1e1e2e"'', ''foreground = "#cdd6f4"'', ''''] @ post\<close>
    using tomlContent_begins [of ?name colors] assms(4,5) by auto
  define existing where "existing =
    (if fs_exists w1 configPath
     then (case fs_read w1 configPath of Inr old \<Rightarrow> strip_color_sections old | Inl e \<Rightarrow> [])
     else [])"
  have rd: "(if fs_exists w1 configPath
             then map_sum id strip_color_sections (fs_read w1 configPath)
             else Inr '''') = Inr existing"
    using assms(8) by (auto simp: existing_def)
  define w2 where "w2 = w1\<lparr>fs_exists := (fs_exists w1)(configPath := True),
      fs_read := (fs_read w1)(configPath := Inr (finalContent existing (tomlContent ?name colors)))\<rparr>"
  have wr: "writeFileSync w1 configPath (finalContent existing (tomlContent ?name colors)) = Inr w2"
    using wf by (simp add: writeFileSync_def w2_def)
  have inst: "installToAlacritty w db themeId =
     Inr (succeeded configPath
       (''Theme '' @ [dq] @ ?name @ [dq] @ '' applied to Alacritty! Restart Alacritty to see changes.''), w2)"
    unfolding installToAlacritty_def alacritty_install_def Let_def assms(3) cp
    by (simp add: assms(7) rd wr dq_def)
  have content: "fs_read w2 configPath = Inr (finalContent existing (tomlContent ?name colors))"
    by (simp add: w2_def)
  define pre where "pre = (if existing \<noteq> [] then existing @ [nl, nl] else [])"
  have fc: "finalContent existing (tomlContent ?name colors) = pre @ tomlContent ?name colors"
    by (simp add: finalContent_def pre_def)
  have "\<not> fs_exists w1 configPath \<longrightarrow> pre = []"
    by (simp add: pre_def existing_def)
  with inst content fc t show ?thesis
    unfolding succeeded_def by metis
qed

theorem alacritty_linux_example_witness:
  \<open>\<exists>i w' post.
     installToAlacritty example_world example_database ''t1'' =
       Inr (\<lparr>success = True, path = ''/home/user/.config/alacritty/alacritty.toml'',
             instructions = Some i, error = None\<rparr>, w')
     \<and> fs_read w' ''/home/user/.config/alacritty/alacritty.toml'' =
         Inr (join_lines [''# ShellShade Theme: Mocha'', ''# Generated by ShellShade'', '''',
                ''[colors.primary]'', ''background = "#1e1e2e"'', ''foreground = "#cdd6f4"'', '''']
              @ post)\<close>
proof -
  let ?p = "''/home/user/.config/alacritty/alacritty.toml''"
  let ?w1 = "example_world\<lparr>fs_exists := (fs_exists example_world)(''/home/user/.config/alacritty'' := True)\<rparr>"
  have 1: "process_platform example_world = linux"
    and 2: "process_env example_world ''XDG_CONFIG_HOME'' = None"
    and 9: "write_fails example_world ?p = None"
    by (simp_all add: example_world_def)
  have 4: "background example_colors = ''#1e1e2e''" and 5: "foreground example_colors = ''#cdd6f4''"
    by (simp_all add: example_colors_def)
  have 6: "?p = path_join example_world
      [path_join example_world [os_homedir example_world, ''.config''], ''alacritty'', ''alacritty.toml'']"
    by (simp add: example_world_def example_join_def)
  have 7: "ensure_directory example_world (path_dirname example_world ?p) = Inr ?w1"
    by (simp add: ensure_directory_def mkdirSync_def example_world_def example_dirname_def)
  have 8: "fs_exists ?w1 ?p \<longrightarrow> (\<exists>old. fs_read ?w1 ?p = Inr old)"
    by (simp add: example_world_def)
  have n: "\<not> fs_exists ?w1 ?p"
    by (simp add: example_world_def)
  from alacritty_linux_example [OF 1 2 example_colors_found 4 5 6 7 8 9] n
  show ?thesis
    unfolding example_name by fastforce
qed

section \<open>Windows Terminal: scheme names and the default scheme\<close>

lemma map_of_update: "map_of (AList.update k v al) = (map_of al)(k \<mapsto> v)"
  by (rule update_conv')

lemma map_filter_append: "List.map_filter f (xs @ ys) = List.map_filter f xs @ List.map_filter f ys"
  by (simp add: List.map_filter_def)

lemma scheme_name_wt_scheme: "scheme_name (wt_scheme themeName colors) = Some themeName"
  by (simp add: scheme_name_def wt_scheme_def)

lemma keep_scheme_name:
  "keep_scheme themeName s = Inr keep \<Longrightarrow> keep = (scheme_name s \<noteq> Some themeName)"
  by (cases s) (auto simp: keep_scheme_def scheme_name_def split: option.splits json.splits)

lemma filter_schemes_names:
  "filter_schemes themeName xs = Inr kept \<Longrightarrow>
     List.map_filter scheme_name kept
     = filter (\<lambda>n. n \<noteq> themeName) (List.map_filter scheme_name xs)"
proof (induction xs arbitrary: kept)
  case Nil
  then show ?case by simp
next
  case (Cons s ss)
  from Cons.prems obtain keep kept' where k: "keep_scheme themeName s = Inr keep"
    and f: "filter_schemes themeName ss = Inr kept'"
    and r: "kept = (if keep then s # kept' else kept')"
    by (auto split: sum.splits)
  from keep_scheme_name [OF k] Cons.IH [OF f] r show ?case
    by (cases "scheme_name s") auto
qed

text \<open>
  One install on settings that are an object: the entries named like the theme are removed
  from the scheme list, the scheme of the theme is appended, and no other entry is touched.
  So the name of the theme occurs once afterwards, and a list without two entries of one
  name stays so.
\<close>

lemma wt_update_step:
  assumes "wt_update themeName colors (JObj kvs) = Inr settings'"
  shows "\<exists>kept. filter_schemes themeName (schemes_of (JObj kvs)) = Inr kept
           \<and> schemes_of settings' = kept @ [wt_scheme themeName colors]
           \<and> scheme_names settings'
               = filter (\<lambda>n. n \<noteq> themeName) (scheme_names (JObj kvs)) @ [themeName]"
proof -
  from assms obtain schemes kept profiles
    where sc: "(if falsy (map_of kvs ''schemes'') then Some (JArr []) else map_of kvs ''schemes'')
               = Some (JArr schemes)"
      and kept: "filter_schemes themeName schemes = Inr kept"
      and res: "settings' = JObj (AList.update ''profiles'' profiles
                   (AList.update ''schemes'' (JArr (kept @ [wt_scheme themeName colors])) kvs))"
    by (auto simp: wt_update_def Let_def split: option.splits json.splits sum.splits)
  have so: "schemes_of (JObj kvs) = schemes"
  proof (cases "map_of kvs ''schemes''")
    case None
    with sc show ?thesis by (simp add: schemes_of_def)
  next
    case (Some j)
    with sc show ?thesis
      by (cases j) (auto simp: schemes_of_def split: if_splits)
  qed
  have after: "schemes_of settings' = kept @ [wt_scheme themeName colors]"
    by (simp add: res schemes_of_def map_of_update)
  have names: "scheme_names settings'
         = filter (\<lambda>n. n \<noteq> themeName) (scheme_names (JObj kvs)) @ [themeName]"
    using filter_schemes_names [OF kept]
    unfolding scheme_names_def so after
    by (simp add: map_filter_append scheme_name_wt_scheme)
  from kept after names show ?thesis unfolding so by blast
qed

lemma wt_update_distinct:
  assumes "wt_update themeName colors (JObj kvs) = Inr settings'"
  shows "count_list (scheme_names settings') themeName = 1"
    and "distinct (scheme_names (JObj kvs)) \<Longrightarrow> distinct (scheme_names settings')"
proof -
  from wt_update_step [OF assms]
  have n: "scheme_names settings'
      = filter (\<lambda>n. n \<noteq> themeName) (scheme_names (JObj kvs)) @ [themeName]"
    by blast
  have "themeName \<notin> set (filter (\<lambda>n. n \<noteq> themeName) (scheme_names (JObj kvs)))" by simp
  then have "count_list (filter (\<lambda>n. n \<noteq> themeName) (scheme_names (JObj kvs))) themeName = 0"
    by (rule count_notin)
  then show "count_list (scheme_names settings') themeName = 1" unfolding n by simp
  show "distinct (scheme_names settings')" if "distinct (scheme_names (JObj kvs))"
    using that unfolding n by auto
qed

text \<open>
  An install that succeeds and leaves \<open>profiles.defaults.colorScheme\<close> different from the name
  of the theme is an install on settings whose \<open>profiles\<close>, or whose \<open>profiles.defaults\<close>, is
  an array.
\<close>

lemma update_profiles_unset:
  assumes "update_profiles themeName profiles = Inr p'"
    and "\<not> (\<exists>p d. p' = JObj p \<and> map_of p ''defaults'' = Some (JObj d)
           \<and> map_of d ''colorScheme'' = Some (JStr themeName))"
  shows "(\<exists>xs. profiles = Some (JArr xs))
     \<or> (\<exists>p xs. profiles = Some (JObj p) \<and> map_of p ''defaults'' = Some (JArr xs))"
  using assms
  by (auto simp: update_profiles_def map_of_update split: if_splits option.splits json.splits)

lemma wt_update_unset:
  assumes "wt_update themeName colors (JObj kvs) = Inr settings'"
    and "colorScheme_of settings' \<noteq> Some (JStr themeName)"
  shows "(\<exists>xs. map_of kvs ''profiles'' = Some (JArr xs))
     \<or> (\<exists>p xs. map_of kvs ''profiles'' = Some (JObj p) \<and> map_of p ''defaults'' = Some (JArr xs))"
proof -
  from assms(1) obtain kept profiles
    where prof: "update_profiles themeName
                   (map_of (AList.update ''schemes'' (JArr (kept @ [wt_scheme themeName colors])) kvs)
                      ''profiles'') = Inr profiles"
      and res: "settings' = JObj (AList.update ''profiles'' profiles
                   (AList.update ''schemes'' (JArr (kept @ [wt_scheme themeName colors])) kvs))"
    by (auto simp: wt_update_def Let_def split: option.splits json.splits sum.splits)
  have pr: "map_of (AList.update ''schemes'' (JArr (kept @ [wt_scheme themeName colors])) kvs)
              ''profiles'' = map_of kvs ''profiles''"
    by (simp add: map_of_update)
  have "\<not> (\<exists>p d. profiles = JObj p \<and> map_of p ''defaults'' = Some (JObj d)
           \<and> map_of d ''colorScheme'' = Some (JStr themeName))"
    using assms(2) unfolding res by (auto simp: colorScheme_of_def map_of_update)
  from update_profiles_unset [OF prof [unfolded pr] this] show ?thesis .
qed

text \<open>The filter compares with the name of the installed theme only: two entries of another
  name stay.\<close>

lemma duplicates_of_another_name_stay:
  "map_sum id scheme_names (wt_update ''Latte'' example_colors duplicate_settings)
     = Inr [''Mocha'', ''Mocha'', ''Latte'']"
  by (simp add: wt_update_def update_profiles_def keep_scheme_def wt_scheme_def Let_def
      duplicate_settings_def scheme_names_def schemes_of_def scheme_name_def)

text \<open>
  The installer writes what \<open>wt_update\<close> returns: when the settings file is found, read and
  parsed, the update succeeds and the write does not throw, the file holds
  \<open>JSON.stringify(settings, null, 4)\<close> of the updated settings and the result says that the
  theme is applied.
\<close>

lemma windows_terminal_install_result:
  assumes "find (fs_exists w) (wt_settings_paths w) = Some settingsPath"
    and "settingsPath \<noteq> []"
    and "fs_read w settingsPath = Inr settingsContent"
    and "JSON_parse w (jsonc_strip settingsContent) = Inr settings"
    and "wt_update themeName colors settings = Inr settings'"
    and "write_fails w settingsPath = None"
  shows \<open>windows_terminal_install w themeName colors =
           Inr (succeeded settingsPath
                  (''Theme "'' @ themeName @ ''" applied to Windows Terminal! All open windows updated.''),
                w\<lparr>fs_exists := (fs_exists w)(settingsPath := True),
                  fs_read := (fs_read w)(settingsPath := Inr (JSON_stringify w settings' 4))\<rparr>)\<close>
  using assms by (auto simp: windows_terminal_install_def writeFileSync_def Let_def)

subsection \<open>The install on the machine whose profiles are a list\<close>

lemma strip_start: "jsonc_strip list_profiles_text = list_profiles_text"
  by code_simp

lemma strip_written: "jsonc_strip list_profiles_written = list_profiles_written"
  by code_simp

lemma texts_differ: "list_profiles_written \<noteq> list_profiles_text"
  by code_simp

lemma update_start: "wt_update ''Mocha'' example_colors list_profiles_start = Inr list_profiles_after"
  by code_simp

lemma update_after: "wt_update ''Mocha'' example_colors list_profiles_after = Inr list_profiles_after"
  by code_simp

lemma no_colorScheme: "colorScheme_of list_profiles_after = None"
  by code_simp

lemma windows_paths:
  "find (\<lambda>p. p = windows_settings_path) (wt_settings_paths windows_world) = Some windows_settings_path"
  by code_simp

lemma windows_path_nonempty: "windows_settings_path \<noteq> []"
  by code_simp


text \<open>
  Claim C6 fails on the machine whose settings file has the profiles as a list.
  \<open>installToWindowsTerminal\<close> of the theme \<open>Mocha\<close> returns success with the text that the
  theme is applied, and the file it writes has the scheme \<open>Mocha\<close> once and the profiles as
  they were: line 479 sets \<open>defaults\<close> on the array, and \<open>JSON.stringify\<close> leaves a property
  of an array out. A second install reads that file back and writes the same file. The
  document it parses to has no \<open>profiles.defaults.colorScheme\<close>, where the claim has the
  name of the most recently installed theme.
\<close>

theorem list_profiles_get_no_colorScheme:
  \<open>\<exists>w1 w2.
     installToWindowsTerminal windows_world example_database ''t1''
       = Inr (succeeded windows_settings_path
                ''Theme "Mocha" applied to Windows Terminal! All open windows updated.'', w1)
     \<and> fs_read w1 windows_settings_path = Inr list_profiles_written
     \<and> installToWindowsTerminal w1 example_database ''t1''
       = Inr (succeeded windows_settings_path
                ''Theme "Mocha" applied to Windows Terminal! All open windows updated.'', w2)
     \<and> fs_read w2 windows_settings_path = Inr list_profiles_written
     \<and> JSON_parse w2 (jsonc_strip list_profiles_written) = Inr list_profiles_after
     \<and> scheme_names list_profiles_after = [''Mocha'']
     \<and> colorScheme_of list_profiles_after = None\<close>
proof -
  define w1 where "w1 = windows_world\<lparr>
      fs_exists := (fs_exists windows_world)(windows_settings_path := True),
      fs_read := (fs_read windows_world)(windows_settings_path := Inr list_profiles_written)\<rparr>"
  define w2 where "w2 = w1\<lparr>
      fs_exists := (fs_exists w1)(windows_settings_path := True),
      fs_read := (fs_read w1)(windows_settings_path := Inr list_profiles_written)\<rparr>"
  have str: "JSON_stringify windows_world list_profiles_after 4 = list_profiles_written"
    "JSON_stringify w1 list_profiles_after 4 = list_profiles_written"
    by (simp_all add: w1_def windows_world_def)
  have found: "find (fs_exists windows_world) (wt_settings_paths windows_world)
      = Some windows_settings_path"
    using windows_paths by (simp add: windows_world_def)
  have "fs_exists w1 = fs_exists windows_world"
    by (auto simp: w1_def windows_world_def fun_eq_iff)
  moreover have "wt_settings_paths w1 = wt_settings_paths windows_world"
    by (simp add: w1_def wt_settings_paths_def env_or_def)
  ultimately have found1: "find (fs_exists w1) (wt_settings_paths w1) = Some windows_settings_path"
    using found by simp
  have rd: "fs_read windows_world windows_settings_path = Inr list_profiles_text"
    "fs_read w1 windows_settings_path = Inr list_profiles_written"
    "fs_read w2 windows_settings_path = Inr list_profiles_written"
    by (simp_all add: w2_def w1_def windows_world_def)
  have parse: "JSON_parse windows_world (jsonc_strip list_profiles_text) = Inr list_profiles_start"
    "JSON_parse w1 (jsonc_strip list_profiles_written) = Inr list_profiles_after"
    "JSON_parse w2 (jsonc_strip list_profiles_written) = Inr list_profiles_after"
    unfolding strip_start strip_written
    using texts_differ by (simp_all add: w2_def w1_def windows_world_def)
  have wr: "write_fails windows_world windows_settings_path = None"
    "write_fails w1 windows_settings_path = None"
    by (simp_all add: w1_def windows_world_def)
  have one: \<open>windows_terminal_install windows_world ''Mocha'' example_colors =
      Inr (succeeded windows_settings_path
             ''Theme "Mocha" applied to Windows Terminal! All open windows updated.'', w1)\<close>
    using windows_terminal_install_result [OF found windows_path_nonempty rd(1) parse(1)
        update_start wr(1)]
    unfolding str w1_def by simp
  have two: \<open>windows_terminal_install w1 ''Mocha'' example_colors =
      Inr (succeeded windows_settings_path
             ''Theme "Mocha" applied to Windows Terminal! All open windows updated.'', w2)\<close>
    using windows_terminal_install_result [OF found1 windows_path_nonempty rd(2) parse(2)
        update_after wr(2)]
    unfolding str w2_def by simp
  have names: "scheme_names list_profiles_after = [''Mocha'']"
    by code_simp
  have i1: \<open>installToWindowsTerminal windows_world example_database ''t1''
       = Inr (succeeded windows_settings_path
                ''Theme "Mocha" applied to Windows Terminal! All open windows updated.'', w1)\<close>
    using one by (simp add: installToWindowsTerminal_def example_colors_found example_name)
  have i2: \<open>installToWindowsTerminal w1 example_database ''t1''
       = Inr (succeeded windows_settings_path
                ''Theme "Mocha" applied to Windows Terminal! All open windows updated.'', w2)\<close>
    using two by (simp add: installToWindowsTerminal_def example_colors_found example_name)
  from i1 rd(2) i2 rd(3) parse(3) names no_colorScheme show ?thesis by blast
qed

section \<open>Alacritty: what a repeated install keeps and removes\<close>

subsection \<open>Section removal\<close>

lemma dropWhile_to_bracket:
  "CHR ''['' \<notin> set b \<Longrightarrow> dropWhile (\<lambda>x. x \<noteq> CHR ''['') (b @ CHR ''['' # s) = CHR ''['' # s"
  by (induction b) auto

lemma dropWhile_no_bracket:
  "CHR ''['' \<notin> set b \<Longrightarrow> dropWhile (\<lambda>x. x \<noteq> CHR ''['') b = []"
  by (induction b) auto

lemma remove_section_plain:
  "CHR ''['' \<notin> set p \<Longrightarrow>
     remove_section (CHR ''['' # h) (p @ s) = p @ remove_section (CHR ''['' # h) s"
  by (induction p) auto

lemma remove_section_at_header:
  assumes "CHR ''['' \<notin> set b" and "s = [] \<or> hd s = CHR ''[''"
  shows "remove_section (CHR ''['' # h) ((CHR ''['' # h) @ b @ s) = remove_section (CHR ''['' # h) s"
proof (cases s)
  case Nil
  with assms(1) show ?thesis
    by (simp add: dropWhile_no_bracket)
next
  case (Cons c cs)
  with assms(2) have "s = CHR ''['' # cs" by simp
  with assms(1) show ?thesis
    by (simp add: dropWhile_to_bracket)
qed

lemma remove_section_other_header:
  assumes "CHR ''['' \<notin> set h'" and "\<not> prefix h h'" and "\<not> prefix h' h"
  shows "remove_section (CHR ''['' # h) ((CHR ''['' # h') @ s)
         = (CHR ''['' # h') @ remove_section (CHR ''['' # h) s"
proof -
  have "\<not> prefix h (h' @ s)"
  proof
    assume "prefix h (h' @ s)"
    then have "prefix h h' \<or> (\<exists>us. h = h' @ us)"
      by (auto simp: prefix_append)
    with assms(2,3) show False by auto
  qed
  then have "remove_section (CHR ''['' # h) ((CHR ''['' # h') @ s)
             = CHR ''['' # remove_section (CHR ''['' # h) (h' @ s)"
    by simp
  with remove_section_plain [OF assms(1)] show ?thesis by simp
qed

lemma prefix_across_line_feed:
  assumes "prefix pat (u @ nl # s)" and "nl \<notin> set pat"
  shows "prefix pat u"
proof -
  from assms(1) consider "prefix pat u" | us where "pat = u @ us" "prefix us (nl # s)"
    by (auto simp: prefix_append)
  then show ?thesis
  proof cases
    case 1
    then show ?thesis .
  next
    case 2
    with assms(2) show ?thesis
      by (cases us) auto
  qed
qed

lemma remove_section_untouched:
  assumes "\<not> js_includes u header" and "nl \<notin> set header" and "header \<noteq> []"
  shows "remove_section header (u @ nl # s) = u @ nl # remove_section header s"
  using assms(1)
proof (induction u)
  case Nil
  from assms(2,3) have "\<not> prefix header (nl # s)"
    by (cases header) auto
  then show ?case by simp
next
  case (Cons c u)
  from Cons.prems have np: "\<not> prefix header (c # u)" and ni: "\<not> js_includes u header"
    by simp_all
  from np prefix_across_line_feed [OF _ assms(2), of "c # u" s]
  have "\<not> prefix header ((c # u) @ nl # s)" by blast
  with Cons.IH [OF ni] show ?case by simp
qed

lemma remove_section_absent:
  assumes "\<not> js_includes u header"
  shows "remove_section header u = u"
  using assms by (induction u) auto


lemma sections_text_start: "sections_text sections = [] \<or> hd (sections_text sections) = CHR ''[''"
  by (cases sections) (simp_all add: sections_text_def)

lemma remove_section_sections:
  assumes "list_all (\<lambda>section. CHR ''['' \<notin> set (fst section) \<and> CHR ''['' \<notin> set (snd section)
             \<and> (fst section = h \<or> (\<not> prefix h (fst section) \<and> \<not> prefix (fst section) h)))
           sections"
  shows "remove_section (CHR ''['' # h) (sections_text sections)
         = sections_text (filter (\<lambda>section. fst section \<noteq> h) sections)"
  using assms
proof (induction sections)
  case Nil
  then show ?case by (simp add: sections_text_def)
next
  case (Cons sec rest)
  then have ih: "remove_section (CHR ''['' # h) (sections_text rest)
         = sections_text (filter (\<lambda>section. fst section \<noteq> h) rest)"
    by simp
  from Cons.prems have nb: "CHR ''['' \<notin> set (fst sec)" "CHR ''['' \<notin> set (snd sec)"
    and cmp: "fst sec = h \<or> (\<not> prefix h (fst sec) \<and> \<not> prefix (fst sec) h)"
    by simp_all
  have split: "sections_text (sec # rest)
               = (CHR ''['' # fst sec) @ snd sec @ sections_text rest"
    by (simp add: sections_text_def)
  show ?case
  proof (cases "fst sec = h")
    case True
    with remove_section_at_header [OF nb(2) sections_text_start, of h rest] ih show ?thesis
      unfolding split by simp
  next
    case False
    with cmp have "\<not> prefix h (fst sec)" "\<not> prefix (fst sec) h" by simp_all
    from remove_section_other_header [OF nb(1) this] remove_section_plain [OF nb(2)] ih False
    show ?thesis
      unfolding split by (simp add: sections_text_def)
  qed
qed

lemma remove_section_in_file:
  assumes "\<not> js_includes u (CHR ''['' # h)" and "nl \<notin> set h"
    and "CHR ''['' \<notin> set comment"
    and "list_all (\<lambda>section. CHR ''['' \<notin> set (fst section) \<and> CHR ''['' \<notin> set (snd section)
             \<and> (fst section = h \<or> (\<not> prefix h (fst section) \<and> \<not> prefix (fst section) h)))
           sections"
  shows "remove_section (CHR ''['' # h) (finalContent u (comment @ sections_text sections))
         = finalContent u (comment @ sections_text (filter (\<lambda>section. fst section \<noteq> h) sections))"
proof -
  have nlh: "nl \<notin> set (CHR ''['' # h)"
    using assms(2) by (simp add: nl_def)
  have inner: "remove_section (CHR ''['' # h) (p @ comment @ sections_text sections)
        = p @ comment @ sections_text (filter (\<lambda>section. fst section \<noteq> h) sections)"
    if "CHR ''['' \<notin> set p" for p
  proof -
    from that assms(3) have "CHR ''['' \<notin> set (p @ comment)" by simp
    from remove_section_plain [OF this, of h] remove_section_sections [OF assms(4)]
    show ?thesis by simp
  qed
  show ?thesis
  proof (cases "u = []")
    case True
    with inner [of "[]"] show ?thesis by (simp add: finalContent_def)
  next
    case False
    have "remove_section (CHR ''['' # h) (u @ nl # [nl] @ comment @ sections_text sections)
          = u @ nl # remove_section (CHR ''['' # h) ([nl] @ comment @ sections_text sections)"
      by (rule remove_section_untouched [OF assms(1) nlh]) simp
    also have "\<dots> = u @ nl # [nl] @ comment
                       @ sections_text (filter (\<lambda>section. fst section \<noteq> h) sections)"
      using inner [of "[nl]"] by (simp add: nl_def)
    finally show ?thesis
      using False by (simp add: finalContent_def)
  qed
qed

lemma tomlContent_sections:
  assumes "plain_theme (name, colors)"
  shows "\<exists>b1 b2 b3 b4 b5.
    tomlContent name colors = toml_comment name @ sections_text
       [(''colors.primary]'', b1), (''colors.cursor]'', b2), (''colors.selection]'', b3),
        (''colors.normal]'', b4), (''colors.bright]'', b5)]
    \<and> CHR ''['' \<notin> set b1 \<and> CHR ''['' \<notin> set b2 \<and> CHR ''['' \<notin> set b3
    \<and> CHR ''['' \<notin> set b4 \<and> CHR ''['' \<notin> set b5"
proof -
  define b1 where \<open>b1 = [nl] @ ''background = "'' @ (background colors) @ ''"''
      @ [nl] @ ''foreground = "'' @ (foreground colors) @ ''"'' @ [nl] @ [nl]\<close>
  define b2 where \<open>b2 = [nl] @ ''text = "'' @ (cursorText colors) @ ''"''
      @ [nl] @ ''cursor = "'' @ (cursor colors) @ ''"'' @ [nl] @ [nl]\<close>
  define b3 where \<open>b3 = [nl] @ ''text = "'' @ (selectionText colors) @ ''"''
      @ [nl] @ ''background = "'' @ (selection colors) @ ''"'' @ [nl] @ [nl]\<close>
  define b4 where \<open>b4 = [nl] @ ''black = "'' @ (black (ansi colors)) @ ''"''
      @ [nl] @ ''red = "'' @ (red (ansi colors)) @ ''"''
      @ [nl] @ ''green = "'' @ (green (ansi colors)) @ ''"''
      @ [nl] @ ''yellow = "'' @ (yellow (ansi colors)) @ ''"''
      @ [nl] @ ''blue = "'' @ (blue (ansi colors)) @ ''"''
      @ [nl] @ ''magenta = "'' @ (magenta (ansi colors)) @ ''"''
      @ [nl] @ ''cyan = "'' @ (cyan (ansi colors)) @ ''"''
      @ [nl] @ ''white = "'' @ (white (ansi colors)) @ ''"'' @ [nl] @ [nl]\<close>
  define b5 where \<open>b5 = [nl] @ ''black = "'' @ (brightBlack (ansi colors)) @ ''"''
      @ [nl] @ ''red = "'' @ (brightRed (ansi colors)) @ ''"''
      @ [nl] @ ''green = "'' @ (brightGreen (ansi colors)) @ ''"''
      @ [nl] @ ''yellow = "'' @ (brightYellow (ansi colors)) @ ''"''
      @ [nl] @ ''blue = "'' @ (brightBlue (ansi colors)) @ ''"''
      @ [nl] @ ''magenta = "'' @ (brightMagenta (ansi colors)) @ ''"''
      @ [nl] @ ''cyan = "'' @ (brightCyan (ansi colors)) @ ''"''
      @ [nl] @ ''white = "'' @ (brightWhite (ansi colors)) @ ''"'' @ [nl]\<close>
  have "tomlContent name colors = toml_comment name @ sections_text
       [(''colors.primary]'', b1), (''colors.cursor]'', b2), (''colors.selection]'', b3),
        (''colors.normal]'', b4), (''colors.bright]'', b5)]"
    by (simp add: tomlContent_def toml_comment_def sections_text_def b1_def b2_def b3_def
        b4_def b5_def)
  moreover have "CHR ''['' \<notin> set b1 \<and> CHR ''['' \<notin> set b2 \<and> CHR ''['' \<notin> set b3
           \<and> CHR ''['' \<notin> set b4 \<and> CHR ''['' \<notin> set b5"
    using assms
    by (simp add: plain_theme_def color_fields_def no_bracket_def nl_def b1_def b2_def b3_def
        b4_def b5_def)
  ultimately show ?thesis by blast
qed

subsection \<open>Comment removal and trimming\<close>

lemma header_match_needs_prefix: "\<not> prefix ''# ShellShade Theme:'' s \<Longrightarrow> header_match s = None"
  by (simp add: header_match_def)

lemma remove_headers_absent:
  "\<not> js_includes u ''# ShellShade Theme:'' \<Longrightarrow> remove_headers u = u"
proof (induction u)
  case Nil
  show ?case by simp
next
  case (Cons c u)
  then have "\<not> prefix ''# ShellShade Theme:'' (c # u)" and "\<not> js_includes u ''# ShellShade Theme:''"
    by simp_all
  with Cons.IH header_match_needs_prefix [of "c # u"] show ?case by simp
qed

lemma remove_headers_untouched:
  assumes "\<not> js_includes u ''# ShellShade Theme:''"
  shows "remove_headers (u @ nl # s) = u @ nl # remove_headers s"
  using assms
proof (induction u)
  case Nil
  have "header_match (nl # s) = None"
    by (simp add: header_match_def nl_def)
  then show ?case by simp
next
  case (Cons c u)
  then have np: "\<not> prefix ''# ShellShade Theme:'' (c # u)"
    and ni: "\<not> js_includes u ''# ShellShade Theme:''"
    by simp_all
  have "nl \<notin> set ''# ShellShade Theme:''"
    by (simp add: nl_def)
  from np prefix_across_line_feed [OF _ this, of "c # u" s]
  have "\<not> prefix ''# ShellShade Theme:'' ((c # u) @ nl # s)" by blast
  then have "header_match ((c # u) @ nl # s) = None"
    by (rule header_match_needs_prefix)
  with Cons.IH [OF ni] show ?case by simp
qed

lemma dropWhile_one_line:
  "one_line name \<Longrightarrow> dropWhile (\<lambda>c. \<not> js_line_terminator c) (name @ nl # s) = nl # s"
  by (induction name) (auto simp: one_line_def js_line_terminator_def nl_def)

lemma header_match_toml_comment:
  assumes "one_line name"
  shows "header_match (toml_comment name) = Some []"
proof -
  have "dropWhile (\<lambda>c. \<not> js_line_terminator c)
          (CHR '' '' # name @ nl # ''# Generated by ShellShade'' @ [nl, nl])
        = nl # ''# Generated by ShellShade'' @ [nl, nl]"
    using dropWhile_one_line [OF assms] by (simp add: js_line_terminator_def)
  then show ?thesis
    by (simp add: header_match_def toml_comment_def Let_def)
qed

lemma remove_headers_toml_comment:
  assumes "one_line name"
  shows "remove_headers (toml_comment name) = []"
proof -
  have "toml_comment name = CHR ''#'' # tl (toml_comment name)"
    by (simp add: toml_comment_def)
  then have "remove_headers (toml_comment name)
        = (case header_match (toml_comment name) of Some rest \<Rightarrow> remove_headers rest
           | None \<Rightarrow> CHR ''#'' # remove_headers (tl (toml_comment name)))"
    by (metis remove_headers.simps(2))
  with header_match_toml_comment [OF assms] show ?thesis by simp
qed

lemma dropWhile_same_length:
  assumes "length (dropWhile P xs) = length xs"
  shows "dropWhile P xs = xs"
proof (cases xs)
  case Nil
  then show ?thesis by simp
next
  case (Cons x xs')
  have "length (dropWhile P xs') \<le> length xs'"
    by (rule length_dropWhile_le)
  with assms Cons show ?thesis
    by (cases "P x") simp_all
qed

lemma trim_fixed_ends:
  assumes "trim u = u" and "u \<noteq> []"
  shows "\<not> js_space (hd u)" and "\<not> js_space (last u)"
proof -
  let ?d = "dropWhile js_space u"
  have l1: "length (dropWhile js_space (rev ?d)) \<le> length ?d"
    using length_dropWhile_le [of js_space "rev ?d"] by simp
  have l2: "length ?d \<le> length u"
    by (rule length_dropWhile_le)
  have "length (trim u) = length (dropWhile js_space (rev ?d))"
    by (simp add: trim_def)
  with assms(1) have "length (dropWhile js_space (rev ?d)) = length u"
    by simp
  with l1 l2 have e1: "length ?d = length u"
    and e2: "length (dropWhile js_space (rev ?d)) = length (rev ?d)"
    by simp_all
  from e1 have d: "?d = u"
    by (rule dropWhile_same_length)
  from e2 have "dropWhile js_space (rev ?d) = rev ?d"
    by (rule dropWhile_same_length)
  with d have r: "dropWhile js_space (rev u) = rev u"
    by simp
  from hd_dropWhile [of js_space u] d assms(2) show "\<not> js_space (hd u)"
    by simp
  from hd_dropWhile [of js_space "rev u"] r assms(2) have "\<not> js_space (hd (rev u))"
    by simp
  with assms(2) show "\<not> js_space (last u)"
    by (simp add: hd_rev)
qed

lemma trim_after_install:
  assumes "trim u = u"
  shows "trim (if u = [] then [] else u @ [nl, nl]) = u"
proof (cases "u = []")
  case True
  then show ?thesis by (simp add: trim_def)
next
  case False
  from trim_fixed_ends [OF assms False] obtain a: "\<not> js_space (hd u)" and b: "\<not> js_space (last u)"
    by simp
  from False a have "dropWhile js_space (u @ [nl, nl]) = u @ [nl, nl]"
    by (cases u) simp_all
  moreover have "js_space nl"
    by (simp add: js_space_def nl_def)
  moreover have "dropWhile js_space (rev u) = rev u"
  proof (cases "rev u")
    case Nil
    then show ?thesis by simp
  next
    case (Cons e es)
    with hd_rev [of u] have "last u = e"
      by simp
    with b Cons show ?thesis by simp
  qed
  ultimately show ?thesis
    using False by (simp add: trim_def)
qed

subsection \<open>An install replaces the block of the install before\<close>

lemma strip_untouched:
  assumes "untouched u"
  shows "strip_color_sections u = u"
  using assms
  by (simp add: untouched_def strip_color_sections_def remove_section_absent remove_headers_absent)

lemma remove_headers_in_file:
  assumes "\<not> js_includes u ''# ShellShade Theme:''" and "one_line name"
  shows "remove_headers (finalContent u (toml_comment name)) = (if u = [] then [] else u @ [nl, nl])"
proof (cases "u = []")
  case True
  with remove_headers_toml_comment [OF assms(2)] show ?thesis
    by (simp add: finalContent_def)
next
  case False
  have "remove_headers (u @ nl # nl # toml_comment name) = u @ nl # remove_headers (nl # toml_comment name)"
    by (rule remove_headers_untouched [OF assms(1)])
  also have "remove_headers (nl # toml_comment name) = nl # remove_headers (toml_comment name)"
    using remove_headers_untouched [of "[]" "toml_comment name"] by simp
  finally show ?thesis
    using False remove_headers_toml_comment [OF assms(2)] by (simp add: finalContent_def)
qed

text \<open>
  The step of the argument: stripping the file an install wrote gives back the configuration
  the install started from.
\<close>

lemma strip_after_install:
  assumes "untouched u" and "plain_theme (name, colors)"
  shows "strip_color_sections (finalContent u (tomlContent name colors)) = u"
proof -
  from tomlContent_sections [OF assms(2)] obtain b1 b2 b3 b4 b5 where
    t: "tomlContent name colors = toml_comment name @ sections_text
       [(''colors.primary]'', b1), (''colors.cursor]'', b2), (''colors.selection]'', b3),
        (''colors.normal]'', b4), (''colors.bright]'', b5)]"
    and b: "CHR ''['' \<notin> set b1" "CHR ''['' \<notin> set b2" "CHR ''['' \<notin> set b3"
    "CHR ''['' \<notin> set b4" "CHR ''['' \<notin> set b5"
    by blast
  from assms(2) have n: "CHR ''['' \<notin> set (toml_comment name)" and o: "one_line name"
    by (simp_all add: plain_theme_def no_bracket_def toml_comment_def nl_def)
  from assms(1) have u: "\<not> js_includes u ''[colors.primary]''" "\<not> js_includes u ''[colors.cursor]''"
    "\<not> js_includes u ''[colors.selection]''" "\<not> js_includes u ''[colors.normal]''"
    "\<not> js_includes u ''[colors.bright]''" "\<not> js_includes u ''# ShellShade Theme:''" "trim u = u"
    by (simp_all add: untouched_def)
  have 1: "remove_section ''[colors.primary]'' (finalContent u (tomlContent name colors))
      = finalContent u (toml_comment name @ sections_text
          [(''colors.cursor]'', b2), (''colors.selection]'', b3),
           (''colors.normal]'', b4), (''colors.bright]'', b5)])"
    unfolding t using remove_section_in_file [OF u(1) _ n, of
        "[(''colors.primary]'', b1), (''colors.cursor]'', b2), (''colors.selection]'', b3),
          (''colors.normal]'', b4), (''colors.bright]'', b5)]"] b
    by (simp add: nl_def)
  have 2: "remove_section ''[colors.cursor]'' (finalContent u (toml_comment name @ sections_text
          [(''colors.cursor]'', b2), (''colors.selection]'', b3),
           (''colors.normal]'', b4), (''colors.bright]'', b5)]))
      = finalContent u (toml_comment name @ sections_text
          [(''colors.selection]'', b3), (''colors.normal]'', b4), (''colors.bright]'', b5)])"
    using remove_section_in_file [OF u(2) _ n, of
        "[(''colors.cursor]'', b2), (''colors.selection]'', b3),
          (''colors.normal]'', b4), (''colors.bright]'', b5)]"] b
    by (simp add: nl_def)
  have 3: "remove_section ''[colors.selection]'' (finalContent u (toml_comment name @ sections_text
          [(''colors.selection]'', b3), (''colors.normal]'', b4), (''colors.bright]'', b5)]))
      = finalContent u (toml_comment name @ sections_text
          [(''colors.normal]'', b4), (''colors.bright]'', b5)])"
    using remove_section_in_file [OF u(3) _ n, of
        "[(''colors.selection]'', b3), (''colors.normal]'', b4), (''colors.bright]'', b5)]"] b
    by (simp add: nl_def)
  have 4: "remove_section ''[colors.normal]'' (finalContent u (toml_comment name @ sections_text
          [(''colors.normal]'', b4), (''colors.bright]'', b5)]))
      = finalContent u (toml_comment name @ sections_text [(''colors.bright]'', b5)])"
    using remove_section_in_file [OF u(4) _ n, of
        "[(''colors.normal]'', b4), (''colors.bright]'', b5)]"] b
    by (simp add: nl_def)
  have 5: "remove_section ''[colors.bright]''
        (finalContent u (toml_comment name @ sections_text [(''colors.bright]'', b5)]))
      = finalContent u (toml_comment name)"
    using remove_section_in_file [OF u(5) _ n, of "[(''colors.bright]'', b5)]"] b
    by (simp add: nl_def sections_text_def)
  show ?thesis
    unfolding strip_color_sections_def 1 2 3 4 5 remove_headers_in_file [OF u(6) o]
    by (rule trim_after_install [OF u(7)])
qed

lemma alacritty_file_after_untouched:
  "untouched u \<Longrightarrow> alacritty_file_after (Some u) name colors = finalContent u (tomlContent name colors)"
  by (simp add: alacritty_file_after_def strip_untouched)

lemma alacritty_file_after_install:
  "untouched u \<Longrightarrow> plain_theme (name, colors) \<Longrightarrow>
     alacritty_file_after (Some (finalContent u (tomlContent name colors))) name' colors'
     = finalContent u (tomlContent name' colors')"
  by (simp add: alacritty_file_after_def strip_after_install)

lemma alacritty_installs_from_install:
  assumes "untouched u"
  shows "plain_theme theme \<Longrightarrow> list_all plain_theme rest \<Longrightarrow>
     alacritty_installs rest (Some (finalContent u (tomlContent (fst theme) (snd theme))))
     = Some (finalContent u (tomlContent (fst (last (theme # rest))) (snd (last (theme # rest)))))"
proof (induction rest arbitrary: theme)
  case Nil
  show ?case by simp
next
  case (Cons next_theme rest)
  from Cons.prems have p: "plain_theme (fst theme, snd theme)"
    and q: "plain_theme next_theme" and r: "list_all plain_theme rest"
    by simp_all
  from alacritty_file_after_install [OF assms p] Cons.IH [OF q r] show ?case
    by simp
qed

text \<open>
  What a sequence of installs leaves. Take any starting content and what the six patterns
  and the trim leave of it. When that remainder has none of the five section headers and no
  generated comment, and the themes have names with no \<open>[\<close> and no line break and colours
  with no \<open>[\<close>, then after any sequence of installs the file is the remainder, an empty
  line, and the block of the last theme: one comment header and one of each colour section.
  With no file at the start it is the block of the last theme.
\<close>

lemma alacritty_installs_last_block:
  assumes "untouched (strip_color_sections existingContent)"
    and "list_all plain_theme installs" and "installs \<noteq> []"
  shows "alacritty_installs installs (Some existingContent)
         = Some (finalContent (strip_color_sections existingContent)
                   (tomlContent (fst (last installs)) (snd (last installs))))
       \<and> alacritty_installs installs None
         = Some (tomlContent (fst (last installs)) (snd (last installs)))"
proof -
  from assms(3) obtain theme rest where i: "installs = theme # rest"
    by (cases installs) auto
  with assms(2) have p: "plain_theme theme" and r: "list_all plain_theme rest"
    by simp_all
  have e: "untouched []"
    by (simp add: untouched_def trim_def)
  have "alacritty_file_after (Some existingContent) (fst theme) (snd theme)
        = finalContent (strip_color_sections existingContent) (tomlContent (fst theme) (snd theme))"
    by (simp add: alacritty_file_after_def)
  then have "alacritty_installs installs (Some existingContent)
         = Some (finalContent (strip_color_sections existingContent)
                   (tomlContent (fst (last installs)) (snd (last installs))))"
    using alacritty_installs_from_install [OF assms(1) p r]
    by (simp add: i)
  moreover have "alacritty_file_after None (fst theme) (snd theme)
                 = finalContent [] (tomlContent (fst theme) (snd theme))"
    by (simp add: alacritty_file_after_def)
  then have "alacritty_installs installs None
         = Some (tomlContent (fst (last installs)) (snd (last installs)))"
    using alacritty_installs_from_install [OF e p r]
    by (simp add: i finalContent_def)
  ultimately show ?thesis by simp
qed

text \<open>
  The installer writes \<open>alacritty_file_after\<close>: when the directory step succeeds, the file,
  if it exists, can be read, and the write does not throw.
\<close>

lemma alacritty_install_writes:
  assumes "ensure_directory w (path_dirname w (alacritty_configPath w)) = Inr w1"
    and "file = (if fs_exists w1 (alacritty_configPath w)
                 then (case fs_read w1 (alacritty_configPath w) of Inr old \<Rightarrow> Some old | Inl e \<Rightarrow> None)
                 else None)"
    and "fs_exists w1 (alacritty_configPath w) \<longrightarrow> file \<noteq> None"
    and "write_fails w1 (alacritty_configPath w) = None"
  shows "\<exists>i w'. alacritty_install w themeName colors = Inr (succeeded (alacritty_configPath w) i, w')
           \<and> fs_read w' (alacritty_configPath w) = Inr (alacritty_file_after file themeName colors)"
proof -
  let ?p = "alacritty_configPath w"
  let ?w' = "w1\<lparr>fs_exists := (fs_exists w1)(?p := True),
      fs_read := (fs_read w1)(?p := Inr (alacritty_file_after file themeName colors))\<rparr>"
  have "\<exists>i. alacritty_install w themeName colors = Inr (succeeded ?p i, ?w')"
    using assms
    by (auto simp: alacritty_install_def alacritty_file_after_def writeFileSync_def Let_def
        split: sum.splits)
  moreover have "fs_read ?w' ?p = Inr (alacritty_file_after file themeName colors)"
    by simp
  ultimately show ?thesis by blast
qed

lemma alacritty_installs_last_block_example:
  "untouched (strip_color_sections old_colors_config)
   \<and> list_all plain_theme [(''Mocha'', example_colors), (''Latte'', example_colors)]
   \<and> alacritty_installs [(''Mocha'', example_colors), (''Latte'', example_colors)]
         (Some old_colors_config)
       = Some (font_config @ [nl, nl] @ tomlContent ''Latte'' example_colors)
   \<and> alacritty_installs [(''Mocha'', example_colors), (''Latte'', example_colors)] None
       = Some (tomlContent ''Latte'' example_colors)"
proof -
  have s: "strip_color_sections old_colors_config = font_config"
    by code_simp
  have u: "untouched (strip_color_sections old_colors_config)"
    unfolding s by code_simp
  have p: "list_all plain_theme [(''Mocha'', example_colors), (''Latte'', example_colors)]"
    by (simp add: plain_theme_def one_line_def js_line_terminator_def no_bracket_def
        color_fields_def example_colors_def)
  have n: "font_config \<noteq> []"
    by (simp add: font_config_def)
  from alacritty_installs_last_block [OF u p] u p n show ?thesis
    by (simp add: finalContent_def s)
qed

subsection \<open>The install on a configuration with a section that is commented out\<close>

lemma strip_commented_out:
  "strip_color_sections commented_out_config = ''# [font]'' @ [nl] @ ''size = 12''"
  by code_simp

text \<open>
  Claim C7 fails on the machine whose configuration has a colour section that is commented
  out. The pattern of \<open>[colors.primary]\<close> matches the header inside the comment and removes
  the text from there to the next \<open>[\<close>: \<open>installToAlacritty\<close> returns success, and the file
  it writes has lost the line \<open>live_config_reload = true\<close>, which is no colour setting, and
  has the header of the font section behind the comment sign, where the claim has every
  line that is no colour setting preserved verbatim.
\<close>

theorem commented_out_section_loses_line:
  \<open>\<exists>w'. installToAlacritty alacritty_world example_database ''t1''
         = Inr (succeeded ''/home/user/.config/alacritty/alacritty.toml''
                  ''Theme "Mocha" applied to Alacritty! Restart Alacritty to see changes.'', w')
     \<and> fs_read alacritty_world ''/home/user/.config/alacritty/alacritty.toml''
         = Inr commented_out_config
     \<and> fs_read w' ''/home/user/.config/alacritty/alacritty.toml''
         = Inr (''# [font]'' @ [nl] @ ''size = 12'' @ [nl, nl] @ tomlContent ''Mocha'' example_colors)
     \<and> js_includes commented_out_config (''live_config_reload = true'' @ [nl] @ ''[font]'' @ [nl])
     \<and> \<not> js_includes (''# [font]'' @ [nl] @ ''size = 12'' @ [nl, nl]
                          @ tomlContent ''Mocha'' example_colors) ''live_config_reload''
     \<and> \<not> js_includes (''# [font]'' @ [nl] @ ''size = 12'' @ [nl, nl]
                          @ tomlContent ''Mocha'' example_colors) ([nl] @ ''[font]'')\<close>
proof -
  let ?p = "''/home/user/.config/alacritty/alacritty.toml''"
  let ?final = "''# [font]'' @ [nl] @ ''size = 12'' @ [nl, nl] @ tomlContent ''Mocha'' example_colors"
  define w' where "w' = alacritty_world\<lparr>fs_exists := (fs_exists alacritty_world)(?p := True),
      fs_read := (fs_read alacritty_world)(?p := Inr ?final)\<rparr>"
  have cp: "alacritty_configPath alacritty_world = ?p"
    by (simp add: alacritty_configPath_def env_or_def alacritty_world_def example_world_def
        example_join_def)
  have dir: "path_dirname alacritty_world ?p = ''/home/user/.config/alacritty''"
    by (simp add: alacritty_world_def example_world_def example_dirname_def)
  have ed: "ensure_directory alacritty_world ''/home/user/.config/alacritty'' = Inr alacritty_world"
    by (simp add: ensure_directory_def alacritty_world_def)
  have ex: "fs_exists alacritty_world ?p"
    by (simp add: alacritty_world_def)
  have rd: "fs_read alacritty_world ?p = Inr commented_out_config"
    by (simp add: alacritty_world_def)
  have wf: "write_fails alacritty_world ?p = None"
    by (simp add: alacritty_world_def example_world_def)
  have inst: \<open>alacritty_install alacritty_world ''Mocha'' example_colors
      = Inr (succeeded ?p ''Theme "Mocha" applied to Alacritty! Restart Alacritty to see changes.'', w')\<close>
    unfolding alacritty_install_def cp Let_def dir ed
    using ex by (simp add: rd strip_commented_out finalContent_def writeFileSync_def wf w'_def)
  then have i: \<open>installToAlacritty alacritty_world example_database ''t1''
      = Inr (succeeded ?p ''Theme "Mocha" applied to Alacritty! Restart Alacritty to see changes.'', w')\<close>
    by (simp add: installToAlacritty_def example_colors_found example_name)
  have r': "fs_read w' ?p = Inr ?final"
    by (simp add: w'_def)
  have a: "js_includes commented_out_config (''live_config_reload = true'' @ [nl] @ ''[font]'' @ [nl])"
    by code_simp
  have b: "\<not> js_includes ?final ''live_config_reload''"
    by code_simp
  have c: "\<not> js_includes ?final ([nl] @ ''[font]'')"
    by code_simp
  from i rd r' a b c show ?thesis by blast
qed

text \<open>
  A theme whose name has a line feed, installed twice on no file: the comment pattern does
  not match the header of the first install, which stays in front of the second.
\<close>

lemma two_line_name_duplicates_header:
  "alacritty_installs [(two_line_name, example_colors), (two_line_name, example_colors)] None
       = Some (''# ShellShade Theme: '' @ two_line_name @ [nl] @ ''# Generated by ShellShade''
               @ [nl, nl] @ tomlContent two_line_name example_colors)"
proof -
  have t: "strip_color_sections (tomlContent two_line_name example_colors)
           = ''# ShellShade Theme: '' @ two_line_name @ [nl] @ ''# Generated by ShellShade''"
    by code_simp
  show ?thesis
    by (simp add: alacritty_file_after_def t finalContent_def)
qed

end
